theory Spec2Isabelle
  imports Main
begin

section \<open>Python values used by app.py\<close>

text \<open>
  Strings are lists of characters (ASCII; the source's literals are ASCII). The helpers
  below model the Python string operations the source calls: truthiness of an
  \<^verbatim>\<open>os.getenv\<close> result, \<^verbatim>\<open>sub in s\<close>, \<^verbatim>\<open>s.lower()\<close>, \<^verbatim>\<open>s.strip()\<close>,
  \<^verbatim>\<open>str(n)\<close>, the format \<^verbatim>\<open>{n:03d}\<close> and \<^verbatim>\<open>int(s)\<close>.
\<close>

definition py_truthy :: "string option \<Rightarrow> bool" where
  "py_truthy v = (case v of None \<Rightarrow> False | Some s \<Rightarrow> s \<noteq> [])"

fun starts_with :: "string \<Rightarrow> string \<Rightarrow> bool" where
  "starts_with [] s = True"
| "starts_with (c # cs) [] = False"
| "starts_with (c # cs) (d # ds) = (c = d \<and> starts_with cs ds)"

fun py_in :: "string \<Rightarrow> string \<Rightarrow> bool" where
  "py_in sub [] = (sub = [])"
| "py_in sub (c # cs) = (starts_with sub (c # cs) \<or> py_in sub cs)"

definition lower_char :: "char \<Rightarrow> char" where
  "lower_char c =
     (case map_of (zip ''ABCDEFGHIJKLMNOPQRSTUVWXYZ'' ''abcdefghijklmnopqrstuvwxyz'') c of
        None \<Rightarrow> c
      | Some l \<Rightarrow> l)"

definition lower :: "string \<Rightarrow> string" where
  "lower s = map lower_char s"

definition is_space :: "char \<Rightarrow> bool" where
  "is_space c = (c \<in> set [CHR 0x09, CHR 0x0A, CHR 0x0B, CHR 0x0C, CHR 0x0D,
                           CHR 0x1C, CHR 0x1D, CHR 0x1E, CHR 0x1F, CHR 0x20])"

definition strip :: "string \<Rightarrow> string" where
  "strip s = rev (dropWhile is_space (rev (dropWhile is_space s)))"

definition digit_char :: "nat \<Rightarrow> char" where
  "digit_char d = ''0123456789'' ! d"

fun str_nat :: "nat \<Rightarrow> string" where
  "str_nat n = (if n < 10 then [digit_char n] else str_nat (n div 10) @ [digit_char (n mod 10)])"

declare str_nat.simps [simp del]

definition fmt_03d :: "nat \<Rightarrow> string" where
  "fmt_03d n = replicate (3 - length (str_nat n)) CHR ''0'' @ str_nat n"

text \<open>
  Exceptions, by the handler of \<^verbatim>\<open>send_email\<close> that catches them:
  \<^verbatim>\<open>smtplib.SMTPAuthenticationError\<close>, any other \<^verbatim>\<open>smtplib.SMTPException\<close>, and any
  other \<^verbatim>\<open>Exception\<close> (with \<^verbatim>\<open>type(e).__name__\<close>). Each carries \<^verbatim>\<open>str(e)\<close>.
\<close>

datatype exn =
    SMTPAuthenticationError string
  | SMTPException string
  | OtherException string string

definition is_digit :: "char \<Rightarrow> bool" where
  "is_digit c = (c \<in> set ''0123456789'')"

definition digit_val :: "char \<Rightarrow> int" where
  "digit_val c = (case map_of (zip ''0123456789'' [0, 1, 2, 3, 4, 5, 6, 7, 8, 9]) c of
                    None \<Rightarrow> 0 | Some v \<Rightarrow> v)"

definition int_literal_ok :: "string \<Rightarrow> bool" where
  "int_literal_ok ds =
     (ds \<noteq> [] \<and> list_all (\<lambda>c. is_digit c \<or> c = CHR ''_'') ds \<and>
      hd ds \<noteq> CHR ''_'' \<and> last ds \<noteq> CHR ''_'' \<and> \<not> py_in ''__'' ds \<and>
      length (filter is_digit ds) \<le> 4300)"

definition py_int :: "string \<Rightarrow> exn + int" where
  "py_int s =
     (let t = strip s;
          neg = (t \<noteq> [] \<and> hd t = CHR ''-'');
          ds = (if t \<noteq> [] \<and> (hd t = CHR ''-'' \<or> hd t = CHR ''+'') then tl t else t)
      in if int_literal_ok ds
         then Inr ((if neg then - 1 else 1) *
                   foldl (\<lambda>acc c. 10 * acc + digit_val c) 0 (filter is_digit ds))
         else Inl (OtherException ''ValueError''
                     (''invalid literal for int() with base 10: '' @ [CHR 0x27] @ s @ [CHR 0x27])))"

text \<open>
  A value of the dictionary that \<^verbatim>\<open>json.loads\<close> returns: a string, \<^verbatim>\<open>None\<close>, a
  boolean, or any other JSON value (number, array, object), which carries what
  \<^verbatim>\<open>str()\<close> gives for it. \<^verbatim>\<open>py_str\<close> is the rendering of an f-string field;
  \<^verbatim>\<open>d.get(k)\<close> gives \<^verbatim>\<open>None\<close> for a missing key, \<^verbatim>\<open>d.get(k, default)\<close> the default.
\<close>

datatype jval = JStr string | JNull | JBool bool | JOther string

type_synonym jdict = "string \<rightharpoonup> jval"

fun py_str :: "jval \<Rightarrow> string" where
  "py_str (JStr s) = s"
| "py_str JNull = ''None''"
| "py_str (JBool b) = (if b then ''True'' else ''False'')"
| "py_str (JOther r) = r"

definition dict_get :: "jdict \<Rightarrow> string \<Rightarrow> jval" where
  "dict_get d k = (case d k of None \<Rightarrow> JNull | Some v \<Rightarrow> v)"

definition dict_get_default :: "jdict \<Rightarrow> string \<Rightarrow> jval \<Rightarrow> jval" where
  "dict_get_default d k dflt = (case d k of None \<Rightarrow> dflt | Some v \<Rightarrow> v)"

section \<open>The external collaborators\<close>

text \<open>
  The reasoning service, the mail relay, the process environment (\<^verbatim>\<open>os.getenv\<close>, and
  \<^verbatim>\<open>st.secrets.get\<close>, which is \<open>None\<close> also when there is no secrets file) and the clock
  are outside the program. Each is a parameter. The two services take and return a world \<open>'w\<close>, so
  that they may answer the same request differently over time. \<^verbatim>\<open>chat_create\<close> stands
  for \<^verbatim>\<open>client.chat.completions.create(...)\<close> up to reading
  \<^verbatim>\<open>response.choices[0].message.content\<close>: it raises, or the content is \<^verbatim>\<open>None\<close>, or
  it is a string. \<^verbatim>\<open>json_loads\<close> raises (\<open>Inl\<close>, with \<^verbatim>\<open>str(e)\<close>) or returns the
  parsed object; the request asks for \<^verbatim>\<open>response_format={"type": "json_object"}\<close>, so a
  content that parses is an object. \<^verbatim>\<open>smtp_session\<close> stands for lines 279-286:
  connect with a timeout of 10 seconds, STARTTLS, login, \<^verbatim>\<open>msg.as_string()\<close>, sendmail,
  quit; it raises, or
  \<^verbatim>\<open>sendmail\<close> returns a non-empty dictionary of refused recipients (carried as its
  \<^verbatim>\<open>str()\<close>), or an empty one.
\<close>

record chat_request =
  model :: string
  system_content :: string
  user_content :: string
  json_object :: bool
  temperature_tenths :: nat

datatype chat_reply = ChatRaised string | NoContent | Content string

record smtp_request =
  host :: string
  port :: int
  timeout :: nat
  login_user :: string
  login_password :: string
  from_addr :: string
  to_addrs :: "string list"
  msg_From :: string
  msg_To :: string
  msg_Subject :: string
  msg_body :: string

datatype smtp_outcome = SmtpRaised exn | SendErrors string | Accepted

record 'w env =
  st_secrets :: "string \<Rightarrow> string option"
  getenv :: "string \<Rightarrow> string option"
  chat_create :: "'w \<Rightarrow> chat_request \<Rightarrow> chat_reply \<times> 'w"
  json_loads :: "string \<Rightarrow> string + jdict"
  smtp_session :: "'w \<Rightarrow> smtp_request \<Rightarrow> smtp_outcome \<times> 'w"
  today :: "'w \<Rightarrow> string"

text \<open>
  The state of the outside: the world of the services, and the requests that reached the
  mail relay and the reasoning service so far, oldest first.
\<close>

record 'w state =
  world :: 'w
  smtp_log :: "smtp_request list"
  chat_log :: "chat_request list"

section \<open>The offer catalog\<close>

record offer =
  offer_code :: string
  offer_name :: string
  description :: string
  target_reasons :: "string list"

definition RETENTION_OFFERS :: "offer list" where
  "RETENTION_OFFERS = [
     \<lparr>offer_code = ''PRICE_DISC_20'', offer_name = ''20% Discount for 6 Months'',
      description = ''20% discount on subscription for the next 6 months'',
      target_reasons = [''too expensive'', ''price'', ''cost'', ''budget'', ''affordability'']\<rparr>,
     \<lparr>offer_code = ''PRICE_DISC_30'', offer_name = ''30% Discount for 3 Months'',
      description = ''30% discount on subscription for the next 3 months'',
      target_reasons = [''too expensive'', ''price'', ''cost'', ''budget'', ''affordability'',
                        ''expensive'']\<rparr>,
     \<lparr>offer_code = ''FEATURE_UPGRADE'', offer_name = ''Free Feature Upgrade'',
      description = ''Upgrade to premium tier with additional features at no extra cost'',
      target_reasons = [''missing features'', ''need more features'', ''limited functionality'',
                        ''features'']\<rparr>,
     \<lparr>offer_code = ''TRIAL_EXTEND'', offer_name = ''Extended Free Trial'',
      description = ''Additional 30 days free trial to explore the platform'',
      target_reasons = [''not sure'', ''need more time'', ''trial'', ''testing'', ''evaluating'']\<rparr>,
     \<lparr>offer_code = ''SUPPORT_PRIORITY'', offer_name = ''Priority Support Access'',
      description = ''Dedicated support team and faster response times'',
      target_reasons = [''support'', ''customer service'', ''help'', ''assistance'',
                        ''response time'']\<rparr>,
     \<lparr>offer_code = ''CUSTOM_SOLUTION'', offer_name = ''Custom Solution Consultation'',
      description = ''Free consultation to create a customized solution for your needs'',
      target_reasons = [''doesn't fit'', ''not suitable'', ''custom'', ''specific needs'',
                        ''requirements'']\<rparr>]"

fun join :: "string \<Rightarrow> string list \<Rightarrow> string" where
  "join sep [] = []"
| "join sep [x] = x"
| "join sep (x # y # ys) = x @ sep @ join sep (y # ys)"

definition offer_text :: "offer \<Rightarrow> string" where
  "offer_text offer =
     ''OFFER_CODE: '' @ offer_code offer @ ''\<newline>'' @
     ''OFFER_NAME: '' @ offer_name offer @ ''\<newline>'' @
     ''DESCRIPTION: '' @ description offer @ ''\<newline>'' @
     ''TARGET_REASONS: '' @ join '', '' (target_reasons offer) @ ''\<newline>'' @
     ''\<newline>---\<newline>\<newline>''"

definition get_offers_database :: string where
  "get_offers_database =
     foldl (\<lambda>offers_text offer. offers_text @ offer_text offer)
       ''AVAILABLE RETENTION OFFERS:\<newline>\<newline>'' RETENTION_OFFERS"

section \<open>Agent 1: the offer matcher\<close>

definition matcher_system_message :: string where
  \<open>matcher_system_message = ''ROLE: You are an offer matching specialist for customer retention.\<newline>\<newline>TASK: Match customer cancellation reasons with appropriate retention offers from our available inventory.\<newline>\<newline>INPUT: You will receive:\<newline>- A customer's cancellation reason (text explanation)\<newline>- Access to our retention offers database\<newline>\<newline>OUTPUT: Provide your response in this exact JSON format:\<newline>{\<newline>    "OFFER_CODE": "the offer code" OR "NO_MATCH",\<newline>    "OFFER_NAME": "the offer name" OR "None",\<newline>    "MATCH_REASONING": "1-2 sentences explaining why this offer addresses their concern, or why no match exists"\<newline>}\<newline>\<newline>CONSTRAINTS:\<newline>- Only recommend offers that directly address the customer's stated cancellation reason\<newline>- Never recommend multiple offers - select only the single best match\<newline>- If the cancellation reason is vague, return NO_MATCH rather than guessing\<newline>- Do not create or modify offer codes - only use existing ones from the database\<newline>\<newline>PROCESS:\<newline>1. Analyze the customer's cancellation reason to identify the core issue (price, features, service quality, competitor, etc.)\<newline>2. Compare the cancellation reason against each offer's intended purpose\<newline>3. Select the offer that most directly resolves their specific concern\<newline>4. If no offer addresses their reason (e.g., they're moving countries and we don't service that area), return NO_MATCH''\<close>

definition matcher_user_message :: "string \<Rightarrow> string \<Rightarrow> string" where
  "matcher_user_message cancellation_reason offers_db =
     ''Please find the best retention offer for this customer.\<newline>\<newline>CANCELLATION REASON: '' @
     cancellation_reason @ ''\<newline>\<newline>'' @ offers_db @
     ''\<newline>\<newline>Follow your process to analyze this reason and return your recommendation in the specified JSON format.''"

definition matcher_request :: "string \<Rightarrow> string \<Rightarrow> chat_request" where
  "matcher_request cancellation_reason offers_db =
     \<lparr>model = ''gpt-4o-mini'', system_content = matcher_system_message,
      user_content = matcher_user_message cancellation_reason offers_db,
      json_object = True, temperature_tenths = 3\<rparr>"

text \<open>
  The \<^verbatim>\<open>try\<close> block of \<^verbatim>\<open>offer_matcher_agent\<close> (lines 135-146): \<open>Inl e\<close> is an
  exception raised inside it, with \<^verbatim>\<open>str(e) = e\<close>. \<^verbatim>\<open>json.loads(None)\<close> raises a
  \<^verbatim>\<open>TypeError\<close>.
\<close>

definition offer_matcher_try ::
  "'w env \<Rightarrow> 'w state \<Rightarrow> string \<Rightarrow> string \<Rightarrow> (string + jdict) \<times> 'w state" where
  "offer_matcher_try env st cancellation_reason offers_db =
     (let req = matcher_request cancellation_reason offers_db;
          (response, w) = chat_create env (world st) req;
          st' = st\<lparr>world := w, chat_log := chat_log st @ [req]\<rparr>
      in case response of
           ChatRaised e \<Rightarrow> (Inl e, st')
         | NoContent \<Rightarrow>
             (Inl ''the JSON object must be str, bytes or bytearray, not NoneType'', st')
         | Content c \<Rightarrow> (json_loads env c, st'))"

text \<open>The \<^verbatim>\<open>except Exception as e\<close> branch (lines 147-153).\<close>

definition offer_matcher_except :: "string \<Rightarrow> jdict" where
  "offer_matcher_except e =
     [''OFFER_CODE'' \<mapsto> JStr ''NO_MATCH'',
      ''OFFER_NAME'' \<mapsto> JStr ''None'',
      ''MATCH_REASONING'' \<mapsto> JStr (''Error occurred: '' @ e)]"

definition offer_matcher_agent ::
  "'w env \<Rightarrow> 'w state \<Rightarrow> string \<Rightarrow> string \<Rightarrow> jdict \<times> 'w state" where
  "offer_matcher_agent env st cancellation_reason offers_db =
     (case offer_matcher_try env st cancellation_reason offers_db of
        (Inl e, st') \<Rightarrow> (offer_matcher_except e, st')
      | (Inr result, st') \<Rightarrow> (result, st'))"

section \<open>Agent 2: the email writer\<close>

definition writer_system_message :: string where
  \<open>writer_system_message = ''ROLE: You are an email writer for customer retention.\<newline>\<newline>TASK: Write a brief, friendly email to convince customers to stay using a matched offer.\<newline>\<newline>INPUT: \<newline>- Matched offer (or "NO_MATCH")\<newline>- Customer's cancellation reason\<newline>- Customer email\<newline>\<newline>OUTPUT:\<newline>- If offer is "NO_MATCH": return only "NO_MATCH"\<newline>- If offer exists: write a 100-150 word email (no subject line)\<newline>\<newline>CONSTRAINTS:\<newline>- Start with the Hey Customer_Name (you can extract it from the email):\<newline>- Acknowledge their cancellation reason\<newline>- Explain how the offer solves their problem\<newline>- End with: "Best regards,\<newline>The Customer Team"\<newline>- Be warm and professional, not pushy\<newline>- Include a clear next step for them to take\<newline>\<newline>STRUCTURE:\<newline>1. Friendly greeting\<newline>2. Acknowledge their concern (1 sentence)\<newline>3. Present the offer as a solution (2-3 sentences)\<newline>4. Call-to-action (1 sentence)\<newline>5. Signature''\<close>

definition writer_user_message :: "string \<Rightarrow> string \<Rightarrow> string \<Rightarrow> string" where
  "writer_user_message matched_offer cancellation_reason customer_email =
     ''Write a retention email:\<newline>\<newline>Matched offer: '' @ matched_offer @
     ''\<newline>Cancellation reason: '' @ cancellation_reason @
     ''\<newline>Customer email: '' @ customer_email"

definition writer_request :: "string \<Rightarrow> string \<Rightarrow> string \<Rightarrow> chat_request" where
  "writer_request matched_offer cancellation_reason customer_email =
     \<lparr>model = ''gpt-4o-mini'', system_content = writer_system_message,
      user_content = writer_user_message matched_offer cancellation_reason customer_email,
      json_object = False, temperature_tenths = 7\<rparr>"

text \<open>
  \<^verbatim>\<open>email_writer_agent\<close> (lines 192-205): the stripped content, or the error text of the
  \<^verbatim>\<open>except\<close> branch. \<^verbatim>\<open>None.strip()\<close> raises an \<^verbatim>\<open>AttributeError\<close>.
\<close>

definition email_writer_agent ::
  "'w env \<Rightarrow> 'w state \<Rightarrow> string \<Rightarrow> string \<Rightarrow> string \<Rightarrow> string \<times> 'w state" where
  "email_writer_agent env st matched_offer cancellation_reason customer_email =
     (let req = writer_request matched_offer cancellation_reason customer_email;
          (response, w) = chat_create env (world st) req;
          st' = st\<lparr>world := w, chat_log := chat_log st @ [req]\<rparr>
      in case response of
           ChatRaised e \<Rightarrow> (''Error occurred while generating email: '' @ e, st')
         | NoContent \<Rightarrow>
             (''Error occurred while generating email: '' @
              [CHR 0x27] @ ''NoneType'' @ [CHR 0x27] @ '' object has no attribute '' @
              [CHR 0x27] @ ''strip'' @ [CHR 0x27], st')
         | Content c \<Rightarrow> (strip c, st'))"

section \<open>The mail dispatcher\<close>

text \<open>
  Lines 252-269 of \<^verbatim>\<open>send_email\<close>: the SMTP server and port. \<open>Unresolved m\<close> is the
  early \<^verbatim>\<open>return False, m\<close> for a custom domain; \<open>Inl e\<close> is the exception that
  \<^verbatim>\<open>int(smtp_port)\<close> raises.
\<close>

datatype endpoint = Endpoint string int | Unresolved string

definition port_or_587 :: "string option \<Rightarrow> exn + int" where
  "port_or_587 smtp_port =
     (case smtp_port of
        None \<Rightarrow> Inr 587
      | Some p \<Rightarrow> if p = [] then Inr 587 else py_int p)"

definition with_server :: "string \<Rightarrow> exn + int \<Rightarrow> exn + endpoint" where
  "with_server smtp_server p = (case p of Inl e \<Rightarrow> Inl e | Inr n \<Rightarrow> Inr (Endpoint smtp_server n))"

definition resolve_endpoint ::
  "string \<Rightarrow> string option \<Rightarrow> string option \<Rightarrow> exn + endpoint" where
  "resolve_endpoint sender_email smtp_server smtp_port =
     (if \<not> py_truthy smtp_server then
        if py_in ''gmail.com'' (lower sender_email) then
          with_server ''smtp.gmail.com'' (port_or_587 smtp_port)
        else if py_in ''outlook.com'' (lower sender_email) \<or>
                py_in ''hotmail.com'' (lower sender_email) then
          with_server ''smtp-mail.outlook.com'' (port_or_587 smtp_port)
        else if py_in ''yahoo.com'' (lower sender_email) then
          with_server ''smtp.mail.yahoo.com'' (port_or_587 smtp_port)
        else
          Inr (Unresolved (''Custom email domain detected ('' @ sender_email @
            ''). Please set SMTP_SERVER and SMTP_PORT in .env file. For Gmail-hosted custom domains, use smtp.gmail.com:587''))
      else with_server (the smtp_server) (port_or_587 smtp_port))"

text \<open>
  Lines 271-292: the message, the session with the relay (logged) and its result.
\<close>

definition deliver ::
  "'w env \<Rightarrow> 'w state \<Rightarrow> string \<Rightarrow> string \<Rightarrow> string \<Rightarrow> int \<Rightarrow>
   string \<Rightarrow> string \<Rightarrow> string \<Rightarrow> (exn + bool \<times> string) \<times> 'w state" where
  "deliver env st sender_email sender_password smtp_server smtp_port to_email subject body =
     (let req = \<lparr>host = smtp_server, port = smtp_port, timeout = 10,
                 login_user = sender_email, login_password = sender_password,
                 from_addr = sender_email, to_addrs = [to_email],
                 msg_From = sender_email, msg_To = to_email, msg_Subject = subject,
                 msg_body = body\<rparr>;
          (outcome, w) = smtp_session env (world st) req;
          st' = st\<lparr>world := w, smtp_log := smtp_log st @ [req]\<rparr>
      in case outcome of
           SmtpRaised e \<Rightarrow> (Inl e, st')
         | SendErrors send_errors \<Rightarrow>
             (Inr (False, ''Email sending reported errors: '' @ send_errors), st')
         | Accepted \<Rightarrow>
             (Inr (True, ''Email sent successfully to '' @ to_email @
                         ''! Check your inbox (and spam folder).''), st'))"

text \<open>The \<^verbatim>\<open>try\<close> block of \<^verbatim>\<open>send_email\<close> (lines 239-292).\<close>

definition send_email_try ::
  "'w env \<Rightarrow> 'w state \<Rightarrow> string \<Rightarrow> string \<Rightarrow> string \<Rightarrow> (exn + bool \<times> string) \<times> 'w state" where
  "send_email_try env st to_email subject body =
     (let sender_email = getenv env ''SENDER_EMAIL'';
          sender_password = getenv env ''SENDER_PASSWORD'';
          smtp_server = getenv env ''SMTP_SERVER'';
          smtp_port = getenv env ''SMTP_PORT''
      in if \<not> py_truthy sender_email \<or> \<not> py_truthy sender_password then
           (Inr (False, ''Email configuration missing. Please set SENDER_EMAIL and SENDER_PASSWORD in .env file''), st)
         else if \<not> py_in ''@'' to_email \<or> \<not> py_in ''@'' (the sender_email) then
           (Inr (False, ''Invalid email format. To: '' @ to_email @ '', From: '' @
                        the sender_email), st)
         else
           case resolve_endpoint (the sender_email) smtp_server smtp_port of
             Inl e \<Rightarrow> (Inl e, st)
           | Inr (Unresolved m) \<Rightarrow> (Inr (False, m), st)
           | Inr (Endpoint srv p) \<Rightarrow>
               deliver env st (the sender_email) (the sender_password) srv p to_email subject body)"

text \<open>The three \<^verbatim>\<open>except\<close> clauses (lines 293-300), in their order.\<close>

fun send_email_except :: "exn \<Rightarrow> bool \<times> string" where
  "send_email_except (SMTPAuthenticationError e) =
     (False, ''Authentication failed: '' @ e @
             ''. Check your email and password. For Gmail, use an App Password. For custom domains, verify SMTP credentials.'')"
| "send_email_except (SMTPException e) =
     (False, ''SMTP error: '' @ e @ ''. Check SMTP_SERVER and SMTP_PORT settings.'')"
| "send_email_except (OtherException error_type error_msg) =
     (False, ''Error sending email ('' @ error_type @ ''): '' @ error_msg @
             ''. Verify your email configuration in .env file.'')"

definition send_email ::
  "'w env \<Rightarrow> 'w state \<Rightarrow> string \<Rightarrow> string \<Rightarrow> string \<Rightarrow> (bool \<times> string) \<times> 'w state" where
  "send_email env st to_email subject body =
     (case send_email_try env st to_email subject body of
        (Inl e, st') \<Rightarrow> (send_email_except e, st')
      | (Inr r, st') \<Rightarrow> (r, st'))"

section \<open>The escalation notifier\<close>

definition notification_body :: "string \<Rightarrow> string \<Rightarrow> string \<Rightarrow> string" where
  "notification_body customer_id customer_email date_cancelled =
     ''A customer cancellation was detected but no matching retention offer was found.\<newline>\<newline>Please review manually:\<newline>\<newline>Customer's ID: '' @
     customer_id @ ''\<newline>\<newline>Email: '' @ customer_email @
     ''\<newline>\<newline>Date Cancelled: '' @ date_cancelled @
     ''\<newline>\<newline>\<newline>Thank you,\<newline>''"

definition send_team_notification ::
  "'w env \<Rightarrow> 'w state \<Rightarrow> string \<Rightarrow> string \<Rightarrow> string \<Rightarrow> (bool \<times> string) \<times> 'w state" where
  "send_team_notification env st customer_id customer_email date_cancelled =
     (let team_email = getenv env ''SENDER_EMAIL''
      in if \<not> py_truthy team_email then
           ((False, ''SENDER_EMAIL not set in .env file''), st)
         else
           send_email env st (the team_email)
             ''Manual Review Required - Customer Cancellation''
             (notification_body customer_id customer_email date_cancelled))"

section \<open>The workflow for one cancellation\<close>

text \<open>
  \<^verbatim>\<open>get_openai_client\<close> (lines 24-43): the API key of the client, or \<open>None\<close> when
  \<^verbatim>\<open>st.stop()\<close> ends the script run.
\<close>

definition get_openai_client :: "'w env \<Rightarrow> string option" where
  "get_openai_client env =
     (let api_key = st_secrets env ''OPENAI_API_KEY'';
          api_key = (if \<not> py_truthy api_key then getenv env ''OPENAI_API_KEY'' else api_key)
      in if \<not> py_truthy api_key then None else api_key)"

text \<open>
  Lines 387-420 of the single form and lines 584-595 of the batch loop are the same calls:
  the matcher, the text \<^verbatim>\<open>f"{match_result.get('OFFER_CODE')} - {match_result.get('OFFER_NAME')}"\<close>,
  the writer on that text, and \<^verbatim>\<open>is_match\<close>.
\<close>

definition matched_offer_text :: "jdict \<Rightarrow> string" where
  "matched_offer_text match_result =
     py_str (dict_get match_result ''OFFER_CODE'') @ '' - '' @
     py_str (dict_get match_result ''OFFER_NAME'')"

definition is_match_of :: "jdict \<Rightarrow> string \<Rightarrow> bool" where
  "is_match_of match_result email_content =
     (dict_get_default match_result ''OFFER_CODE'' (JStr ''NO_MATCH'') \<noteq> JStr ''NO_MATCH'' \<and>
      email_content \<noteq> ''NO_MATCH'')"

definition run_agents ::
  "'w env \<Rightarrow> 'w state \<Rightarrow> string \<Rightarrow> string \<Rightarrow> string \<Rightarrow> (jdict \<times> string \<times> bool) \<times> 'w state" where
  "run_agents env st offers_db cancellation_reason customer_email =
     (let (match_result, st1) = offer_matcher_agent env st cancellation_reason offers_db;
          matched_offer = matched_offer_text match_result;
          (email_content, st2) =
             email_writer_agent env st1 matched_offer cancellation_reason customer_email
      in ((match_result, email_content, is_match_of match_result email_content), st2))"

subsection \<open>The single form (tab 1)\<close>

record processed =
  data_customer_id :: string
  data_customer_email :: string
  data_cancellation_reason :: string
  data_date_cancelled :: string
  data_match_result :: jdict
  data_email_content :: string
  data_is_match :: bool

record result_row =
  Customer_ID :: string
  Email :: string
  Date_Cancelled :: string
  Cancellation_Reason :: string
  Offer_Code :: jval
  Offer_Name :: jval
  Match_Found :: string
  Email_Content :: string
  Email_Sent :: bool

record session_state =
  processed_data :: "processed option"
  email_sent :: bool
  team_notification_sent :: bool
  csv_results :: "result_row list option"

text \<open>The values of the form; \<open>form_date_cancelled\<close> is \<^verbatim>\<open>str(date_cancelled)\<close>.\<close>

record form =
  form_customer_id :: string
  form_customer_email :: string
  form_cancellation_reason :: string
  form_date_cancelled :: string
  submitted :: bool

datatype script_run = Stopped | Continues

text \<open>Lines 366-431: the form is processed when it was submitted with a reason.\<close>

definition tab1_process ::
  "'w env \<Rightarrow> 'w state \<Rightarrow> session_state \<Rightarrow> form \<Rightarrow> script_run \<times> session_state \<times> 'w state" where
  "tab1_process env st ss f =
     (if submitted f \<and> form_cancellation_reason f \<noteq> [] then
        let ss1 = ss\<lparr>email_sent := False, team_notification_sent := False\<rparr>
        in case get_openai_client env of
             None \<Rightarrow> (Stopped, ss1, st)
           | Some client \<Rightarrow>
               let offers_db = get_offers_database;
                   ((match_result, email_content, is_match), st') =
                      run_agents env st offers_db (form_cancellation_reason f)
                        (form_customer_email f)
               in (Continues,
                   ss1\<lparr>processed_data := Some
                     \<lparr>data_customer_id = form_customer_id f,
                      data_customer_email = form_customer_email f,
                      data_cancellation_reason = form_cancellation_reason f,
                      data_date_cancelled = form_date_cancelled f,
                      data_match_result = match_result,
                      data_email_content = email_content,
                      data_is_match = is_match\<rparr>\<rparr>,
                   st')
      else (Continues, ss, st))"

text \<open>
  Lines 434-507: with a match, the Send Email button (disabled once the email was sent);
  without one, the team is notified unless it was already.
\<close>

definition tab1_display ::
  "'w env \<Rightarrow> 'w state \<Rightarrow> session_state \<Rightarrow> bool \<Rightarrow> session_state \<times> 'w state" where
  "tab1_display env st ss send_clicked =
     (case processed_data ss of
        None \<Rightarrow> (ss, st)
      | Some data \<Rightarrow>
          if data_is_match data then
            if send_clicked \<and> \<not> email_sent ss then
              let ((success, message), st') =
                     send_email env st (data_customer_email data)
                       ''We'd Love to Keep You - Special Retention Offer''
                       (data_email_content data)
              in (if success then ss\<lparr>email_sent := True\<rparr> else ss, st')
            else (ss, st)
          else if \<not> team_notification_sent ss then
            let ((success, message), st') =
                   send_team_notification env st (data_customer_id data)
                     (data_customer_email data) (data_date_cancelled data)
            in (if success then ss\<lparr>team_notification_sent := True\<rparr> else ss, st')
          else (ss, st))"

subsection \<open>The batch (tab 2)\<close>

text \<open>
  A cell of the data frame is missing (\<^verbatim>\<open>NaN\<close>) or a value, carried as its \<^verbatim>\<open>str()\<close>.
  A row has the two required columns; each of the two optional ones may be absent.
\<close>

datatype cell = NaN | Cell string

fun cell_str :: "cell \<Rightarrow> string" where
  "cell_str NaN = ''nan''"
| "cell_str (Cell s) = s"

record csv_row =
  col_Email :: cell
  col_Cancellation_Reason :: cell
  col_Customer_ID :: "cell option"
  col_Date_Cancelled :: "cell option"

text \<open>The body of the loop, lines 561-607; \<open>idx\<close> is the row's index label.\<close>

definition process_row ::
  "'w env \<Rightarrow> 'w state \<Rightarrow> string \<Rightarrow> nat \<Rightarrow> csv_row \<Rightarrow> result_row \<times> 'w state" where
  "process_row env st offers_db idx row =
     (let customer_email = strip (cell_str (col_Email row));
          cancellation_reason = strip (cell_str (col_Cancellation_Reason row));
          customer_id =
            (case col_Customer_ID row of
               None \<Rightarrow> strip (''CUST-'' @ fmt_03d (idx + 1))
             | Some NaN \<Rightarrow> ''CUST-'' @ fmt_03d (idx + 1)
             | Some (Cell v) \<Rightarrow> strip v);
          date_cancelled =
            (case col_Date_Cancelled row of
               None \<Rightarrow> today env (world st)
             | Some NaN \<Rightarrow> today env (world st)
             | Some (Cell v) \<Rightarrow> v);
          ((match_result, email_content, is_match), st') =
             run_agents env st offers_db cancellation_reason customer_email
      in (\<lparr>Customer_ID = customer_id,
           Email = customer_email,
           Date_Cancelled = date_cancelled,
           Cancellation_Reason = cancellation_reason,
           Offer_Code = dict_get_default match_result ''OFFER_CODE'' (JStr ''NO_MATCH''),
           Offer_Name = dict_get_default match_result ''OFFER_NAME'' (JStr ''None''),
           Match_Found = (if is_match then ''Yes'' else ''No''),
           Email_Content = email_content,
           Email_Sent = False\<rparr>, st'))"

text \<open>The loop over \<^verbatim>\<open>df.iterrows()\<close>, lines 556-607, appending to \<^verbatim>\<open>results\<close>.\<close>

fun process_rows ::
  "'w env \<Rightarrow> 'w state \<Rightarrow> string \<Rightarrow> nat \<Rightarrow> csv_row list \<Rightarrow> result_row list \<Rightarrow>
   result_row list \<times> 'w state" where
  "process_rows env st offers_db idx [] results = (results, st)"
| "process_rows env st offers_db idx (row # rows) results =
     (let (r, st') = process_row env st offers_db idx row
      in process_rows env st' offers_db (Suc idx) rows (results @ [r]))"

text \<open>Lines 550-612: the button Process All Cancellations.\<close>

definition tab2_process_all ::
  "'w env \<Rightarrow> 'w state \<Rightarrow> session_state \<Rightarrow> csv_row list \<Rightarrow> script_run \<times> session_state \<times> 'w state" where
  "tab2_process_all env st ss df =
     (case get_openai_client env of
        None \<Rightarrow> (Stopped, ss, st)
      | Some client \<Rightarrow>
          let offers_db = get_offers_database;
              (results, st') = process_rows env st offers_db 0 df []
          in (Continues, ss\<lparr>csv_results := Some results\<rparr>, st'))"

text \<open>
  Lines 640-668. \<^verbatim>\<open>matched_results\<close> holds the very dictionaries of
  \<^verbatim>\<open>st.session_state.csv_results\<close>, so it is the list of their positions, and
  \<^verbatim>\<open>result['Email Sent'] = True\<close> updates the session at that position.
\<close>

definition matched_results :: "result_row list \<Rightarrow> nat list" where
  "matched_results results =
     filter (\<lambda>i. Match_Found (results ! i) = ''Yes'' \<and> \<not> Email_Sent (results ! i))
       [0 ..< length results]"

fun send_all_loop ::
  "'w env \<Rightarrow> 'w state \<Rightarrow> result_row list \<Rightarrow> nat list \<Rightarrow> nat \<Rightarrow> nat \<Rightarrow>
   (result_row list \<times> nat \<times> nat) \<times> 'w state" where
  "send_all_loop env st results [] success_count fail_count =
     ((results, success_count, fail_count), st)"
| "send_all_loop env st results (i # rest) success_count fail_count =
     (let result = results ! i;
          ((success, message), st') =
             send_email env st (Email result)
               ''We'd Love to Keep You - Special Retention Offer'' (Email_Content result)
      in if success then
           send_all_loop env st' (results[i := result\<lparr>Email_Sent := True\<rparr>]) rest
             (success_count + 1) fail_count
         else send_all_loop env st' results rest success_count (fail_count + 1))"

text \<open>
  The button Send All Emails exists only when \<^verbatim>\<open>matched_results\<close> is not empty; the
  counts are \<open>None\<close> when the loop did not run.
\<close>

definition send_all_matched ::
  "'w env \<Rightarrow> 'w state \<Rightarrow> result_row list \<Rightarrow> bool \<Rightarrow>
   (result_row list \<times> (nat \<times> nat) option) \<times> 'w state" where
  "send_all_matched env st results clicked =
     (if matched_results results \<noteq> [] \<and> clicked then
        case send_all_loop env st results (matched_results results) 0 0 of
          ((results', success_count, fail_count), st') \<Rightarrow>
            ((results', Some (success_count, fail_count)), st')
      else ((results, None), st))"

text \<open>
  Lines 618 and 696-701: the export exists when the session has results; its rows are
  the eight exported columns of each result, in the order of the session.
\<close>

definition export_columns ::
  "result_row \<Rightarrow> string \<times> string \<times> string \<times> string \<times> jval \<times> jval \<times> string \<times> bool" where
  "export_columns r =
     (Customer_ID r, Email r, Date_Cancelled r, Cancellation_Reason r,
      Offer_Code r, Offer_Name r, Match_Found r, Email_Sent r)"

definition csv_export ::
  "session_state \<Rightarrow>
   (string \<times> string \<times> string \<times> string \<times> jval \<times> jval \<times> string \<times> bool) list option" where
  "csv_export ss =
     (case csv_results ss of
        None \<Rightarrow> None
      | Some results \<Rightarrow> if results = [] then None else Some (map export_columns results))"

section \<open>Notions of the specification\<close>

text \<open>
  The reasoning call of the matcher fails: the service call raises (an error of the
  service, a timeout), or there is no content, or \<^verbatim>\<open>json.loads\<close> cannot parse it.
\<close>

definition reasoning_call_fails :: "'w env \<Rightarrow> 'w state \<Rightarrow> string \<Rightarrow> string \<Rightarrow> bool" where
  "reasoning_call_fails env st cancellation_reason offers_db =
     (case fst (chat_create env (world st) (matcher_request cancellation_reason offers_db)) of
        ChatRaised e \<Rightarrow> True
      | NoContent \<Rightarrow> True
      | Content c \<Rightarrow> isl (json_loads env c))"


text \<open>The domain of an address: what follows its last \<^verbatim>\<open>@\<close>.\<close>

definition domain_of :: "string \<Rightarrow> string" where
  "domain_of address = rev (takeWhile (\<lambda>c. c \<noteq> CHR ''@'') (rev address))"

definition known_provider_domains :: "string list" where
  "known_provider_domains = [''gmail.com'', ''outlook.com'', ''hotmail.com'', ''yahoo.com'']"

text \<open>
  The success flags that \<^verbatim>\<open>send_email\<close> returns to the loop of Send All Emails, one for
  each record the loop visits, in the order of the visits; each dispatch starts in the
  state that the dispatches before it left.
\<close>

fun dispatch_results ::
  "'w env \<Rightarrow> 'w state \<Rightarrow> result_row list \<Rightarrow> nat list \<Rightarrow> bool list" where
  "dispatch_results env st results [] = []"
| "dispatch_results env st results (i # rest) =
     (let result = results ! i;
          ((success, message), st') =
             send_email env st (Email result)
               ''We'd Love to Keep You - Special Retention Offer'' (Email_Content result)
      in success #
         dispatch_results env st'
           (if success then results[i := result\<lparr>Email_Sent := True\<rparr>] else results) rest)"

section \<open>Scripted collaborators for concrete runs\<close>

text \<open>
  A reasoning service and a mail relay that answer by a script; the world counts the calls
  made so far, so a script may answer the first call and a later one differently.
\<close>

definition reply_fabricated :: string where
  \<open>reply_fabricated = ''{"OFFER_CODE": "FREE_FOREVER", "OFFER_NAME": "Free Forever", "MATCH_REASONING": "The customer wants to pay nothing."}''\<close>

definition reply_price :: string where
  \<open>reply_price = ''{"OFFER_CODE": "PRICE_DISC_20", "OFFER_NAME": "20% Discount for 6 Months", "MATCH_REASONING": "The discount addresses the price concern."}''\<close>

definition scripted_json_loads :: "string \<Rightarrow> string + jdict" where
  "scripted_json_loads c =
     (if c = reply_fabricated then
        Inr [''OFFER_CODE'' \<mapsto> JStr ''FREE_FOREVER'', ''OFFER_NAME'' \<mapsto> JStr ''Free Forever'',
             ''MATCH_REASONING'' \<mapsto> JStr ''The customer wants to pay nothing.'']
      else if c = reply_price then
        Inr [''OFFER_CODE'' \<mapsto> JStr ''PRICE_DISC_20'',
             ''OFFER_NAME'' \<mapsto> JStr ''20% Discount for 6 Months'',
             ''MATCH_REASONING'' \<mapsto> JStr ''The discount addresses the price concern.'']
      else Inl ''Expecting value: line 1 column 1 (char 0)'')"

definition scripted_env ::
  "(string \<rightharpoonup> string) \<Rightarrow> (nat \<Rightarrow> chat_request \<Rightarrow> chat_reply) \<Rightarrow>
   (nat \<Rightarrow> smtp_request \<Rightarrow> smtp_outcome) \<Rightarrow> nat env" where
  "scripted_env vars chat smtp =
     \<lparr>st_secrets = Map.empty, getenv = vars,
      chat_create = (\<lambda>w req. (chat w req, Suc w)),
      json_loads = scripted_json_loads,
      smtp_session = (\<lambda>w req. (smtp w req, Suc w)),
      today = (\<lambda>w. ''2024-03-01'')\<rparr>"

definition start :: "nat state" where
  "start = \<lparr>world = 0, smtp_log = [], chat_log = []\<rparr>"

definition gmail_vars :: "string \<rightharpoonup> string" where
  "gmail_vars = [''OPENAI_API_KEY'' \<mapsto> ''sk-test'', ''SENDER_EMAIL'' \<mapsto> ''team@gmail.com'',
                 ''SENDER_PASSWORD'' \<mapsto> ''app-password'']"

definition lookalike_vars :: "string \<rightharpoonup> string" where
  "lookalike_vars = [''SENDER_EMAIL'' \<mapsto> ''alice@notgmail.com'',
                     ''SENDER_PASSWORD'' \<mapsto> ''app-password'']"

text \<open>
  A session of three results: a match that was not sent, no match, a match already sent.
\<close>

definition sample_session :: "result_row list" where
  "sample_session =
     [\<lparr>Customer_ID = ''CUST-001'', Email = ''ann@example.org'', Date_Cancelled = ''2024-02-27'',
       Cancellation_Reason = ''too expensive'', Offer_Code = JStr ''PRICE_DISC_20'',
       Offer_Name = JStr ''20% Discount for 6 Months'', Match_Found = ''Yes'',
       Email_Content = ''Hey Ann, ...'', Email_Sent = False\<rparr>,
      \<lparr>Customer_ID = ''CUST-002'', Email = ''bob@example.org'', Date_Cancelled = ''2024-02-28'',
       Cancellation_Reason = ''moving abroad'', Offer_Code = JStr ''NO_MATCH'',
       Offer_Name = JStr ''None'', Match_Found = ''No'',
       Email_Content = ''NO_MATCH'', Email_Sent = False\<rparr>,
      \<lparr>Customer_ID = ''CUST-003'', Email = ''cho@example.org'', Date_Cancelled = ''2024-02-29'',
       Cancellation_Reason = ''missing features'', Offer_Code = JStr ''FEATURE_UPGRADE'',
       Offer_Name = JStr ''Free Feature Upgrade'', Match_Found = ''Yes'',
       Email_Content = ''Hey Cho, ...'', Email_Sent = True\<rparr>]"

section \<open>The substring test\<close>

text \<open>\<^verbatim>\<open>sub in s\<close> holds exactly when \<open>s\<close> has \<open>sub\<close> as a contiguous part.\<close>

lemma starts_with_iff: "starts_with sub s \<longleftrightarrow> (\<exists>ss. s = sub @ ss)"
  by (induction sub s rule: starts_with.induct) auto

lemma py_in_iff: "py_in sub s \<longleftrightarrow> (\<exists>ps ss. s = ps @ sub @ ss)"
proof (induction s)
  case Nil
  show ?case by auto
next
  case (Cons c cs)
  show ?case
  proof
    assume "py_in sub (c # cs)"
    then consider "starts_with sub (c # cs)" | "py_in sub cs" by auto
    then show "\<exists>ps ss. c # cs = ps @ sub @ ss"
    proof cases
      case 1
      then obtain ss where "c # cs = sub @ ss" by (auto simp: starts_with_iff)
      then have "c # cs = [] @ sub @ ss" by simp
      then show ?thesis by blast
    next
      case 2
      with Cons.IH obtain ps ss where "cs = ps @ sub @ ss" by auto
      then have "c # cs = (c # ps) @ sub @ ss" by simp
      then show ?thesis by blast
    qed
  next
    assume "\<exists>ps ss. c # cs = ps @ sub @ ss"
    then obtain ps ss where e: "c # cs = ps @ sub @ ss" by blast
    show "py_in sub (c # cs)"
    proof (cases ps)
      case Nil
      with e have "starts_with sub (c # cs)" by (auto simp: starts_with_iff)
      then show ?thesis by simp
    next
      case (Cons p ps')
      with e have "cs = ps' @ sub @ ss" by simp
      with Cons.IH have "py_in sub cs" by blast
      then show ?thesis by simp
    qed
  qed
qed

section \<open>The offer matcher: failures and offer codes\<close>

lemma offer_matcher_try_isl:
  "isl (fst (offer_matcher_try env st r db)) = reasoning_call_fails env st r db"
  by (simp add: reasoning_call_fails_def offer_matcher_try_def Let_def
      split: prod.splits chat_reply.splits)

lemma offer_matcher_agent_cases:
  "fst (offer_matcher_agent env st r db) =
     (case fst (offer_matcher_try env st r db) of
        Inl e \<Rightarrow> offer_matcher_except e
      | Inr result \<Rightarrow> result)"
  by (simp add: offer_matcher_agent_def split: prod.splits sum.splits)

lemma offer_matcher_except_fields:
  "dict_get (offer_matcher_except e) ''OFFER_CODE'' = JStr ''NO_MATCH''"
  "dict_get (offer_matcher_except e) ''OFFER_NAME'' = JStr ''None''"
  "dict_get (offer_matcher_except e) ''MATCH_REASONING'' = JStr (''Error occurred: '' @ e)"
  by (simp_all add: offer_matcher_except_def dict_get_def)

text \<open>
  C3. Whenever the reasoning call of the matcher fails (the service raises, gives no
  content, or gives a content that does not parse), the matcher returns a decision: its
  offer code is \<^verbatim>\<open>NO_MATCH\<close> and its reasoning is a non-empty string. The matcher is a
  total function to decisions, so no failure reaches its caller.
\<close>

theorem offer_matcher_failure_degrades:
  assumes "reasoning_call_fails env st cancellation_reason offers_db"
  shows "dict_get (fst (offer_matcher_agent env st cancellation_reason offers_db)) ''OFFER_CODE''
           = JStr ''NO_MATCH'' \<and>
         (\<exists>reasoning. reasoning \<noteq> [] \<and>
            dict_get (fst (offer_matcher_agent env st cancellation_reason offers_db))
              ''MATCH_REASONING'' = JStr reasoning)"
proof -
  from assms obtain e where
    "fst (offer_matcher_try env st cancellation_reason offers_db) = Inl e"
    unfolding offer_matcher_try_isl [symmetric] by (auto simp: isl_def)
  then have "fst (offer_matcher_agent env st cancellation_reason offers_db) =
             offer_matcher_except e"
    by (simp add: offer_matcher_agent_cases)
  then show ?thesis
    by (simp add: offer_matcher_except_fields)
qed

theorem offer_matcher_failure_degrades_witness:
  "reasoning_call_fails
     (scripted_env gmail_vars (\<lambda>w req. ChatRaised ''Request timed out.'') (\<lambda>w req. Accepted))
     start ''too expensive'' get_offers_database \<and>
   dict_get (fst (offer_matcher_agent
       (scripted_env gmail_vars (\<lambda>w req. ChatRaised ''Request timed out.'') (\<lambda>w req. Accepted))
       start ''too expensive'' get_offers_database)) ''OFFER_CODE'' = JStr ''NO_MATCH''"
proof -
  have h: "reasoning_call_fails
     (scripted_env gmail_vars (\<lambda>w req. ChatRaised ''Request timed out.'') (\<lambda>w req. Accepted))
     start ''too expensive'' get_offers_database"
    by (simp add: reasoning_call_fails_def scripted_env_def)
  from offer_matcher_failure_degrades [OF h] h show ?thesis by blast
qed




section \<open>The email writer on a decision without a match\<close>






section \<open>The mail dispatcher: transport resolution and failure kinds\<close>

lemma send_email_try_log:
  "smtp_log (snd (send_email_try env st to_email subject body)) = smtp_log st \<and>
     world (snd (send_email_try env st to_email subject body)) = world st \<or>
   (\<exists>srv p. smtp_log (snd (send_email_try env st to_email subject body)) =
      smtp_log st @
        [\<lparr>host = srv, port = p, timeout = 10,
          login_user = the (getenv env ''SENDER_EMAIL''),
          login_password = the (getenv env ''SENDER_PASSWORD''),
          from_addr = the (getenv env ''SENDER_EMAIL''), to_addrs = [to_email],
          msg_From = the (getenv env ''SENDER_EMAIL''), msg_To = to_email,
          msg_Subject = subject, msg_body = body\<rparr>])"
  by (auto simp: send_email_try_def deliver_def Let_def
      split: sum.splits endpoint.splits prod.splits smtp_outcome.splits)

lemma send_email_snd:
  "snd (send_email env st to_email subject body) = snd (send_email_try env st to_email subject body)"
  by (simp add: send_email_def split: prod.splits sum.splits)

lemma send_email_fst:
  "fst (send_email env st to_email subject body) =
     (case fst (send_email_try env st to_email subject body) of
        Inl e \<Rightarrow> send_email_except e | Inr r \<Rightarrow> r)"
  by (simp add: send_email_def split: prod.splits sum.splits)

lemma send_email_log:
  "smtp_log (snd (send_email env st to_email subject body)) = smtp_log st \<and>
     world (snd (send_email env st to_email subject body)) = world st \<or>
   (\<exists>srv p. smtp_log (snd (send_email env st to_email subject body)) =
      smtp_log st @
        [\<lparr>host = srv, port = p, timeout = 10,
          login_user = the (getenv env ''SENDER_EMAIL''),
          login_password = the (getenv env ''SENDER_PASSWORD''),
          from_addr = the (getenv env ''SENDER_EMAIL''), to_addrs = [to_email],
          msg_From = the (getenv env ''SENDER_EMAIL''), msg_To = to_email,
          msg_Subject = subject, msg_body = body\<rparr>])"
  unfolding send_email_snd by (rule send_email_try_log)

lemma chat_log_send_email:
  "chat_log (snd (send_email env st to_email subject body)) = chat_log st"
  by (auto simp: send_email_snd send_email_try_def deliver_def Let_def
      split: sum.splits endpoint.splits prod.splits smtp_outcome.splits)

lemma send_email_except_fails: "\<not> fst (send_email_except e)"
  by (cases e) simp_all

lemma resolve_endpoint_explicit:
  assumes "py_truthy smtp_server"
  shows "resolve_endpoint sender_email smtp_server None = Inr (Endpoint (the smtp_server) 587)"
    and "resolve_endpoint sender_email smtp_server (Some []) = Inr (Endpoint (the smtp_server) 587)"
    and "p \<noteq> [] \<Longrightarrow> resolve_endpoint sender_email smtp_server (Some p) =
           with_server (the smtp_server) (py_int p)"
  using assms by (simp_all add: resolve_endpoint_def with_server_def port_or_587_def)

lemma resolve_endpoint_inferred:
  assumes "\<not> py_truthy smtp_server" and "\<not> py_truthy smtp_port"
  shows "resolve_endpoint sender_email smtp_server smtp_port =
     (if py_in ''gmail.com'' (lower sender_email) then Inr (Endpoint ''smtp.gmail.com'' 587)
      else if py_in ''outlook.com'' (lower sender_email) \<or>
              py_in ''hotmail.com'' (lower sender_email)
        then Inr (Endpoint ''smtp-mail.outlook.com'' 587)
      else if py_in ''yahoo.com'' (lower sender_email)
        then Inr (Endpoint ''smtp.mail.yahoo.com'' 587)
      else Inr (Unresolved (''Custom email domain detected ('' @ sender_email @
            ''). Please set SMTP_SERVER and SMTP_PORT in .env file. For Gmail-hosted custom domains, use smtp.gmail.com:587'')))"
  using assms
  by (cases smtp_port)
     (auto simp: resolve_endpoint_def with_server_def port_or_587_def py_truthy_def)

lemma send_email_unresolved_no_delivery:
  assumes "\<not> py_truthy (getenv env ''SMTP_SERVER'')"
    and "\<not> py_in ''gmail.com'' (lower (the (getenv env ''SENDER_EMAIL'')))"
    and "\<not> py_in ''outlook.com'' (lower (the (getenv env ''SENDER_EMAIL'')))"
    and "\<not> py_in ''hotmail.com'' (lower (the (getenv env ''SENDER_EMAIL'')))"
    and "\<not> py_in ''yahoo.com'' (lower (the (getenv env ''SENDER_EMAIL'')))"
  shows "\<not> fst (fst (send_email env st to_email subject body)) \<and>
         snd (send_email env st to_email subject body) = st"
  using assms
  by (auto simp: send_email_def send_email_try_def resolve_endpoint_def Let_def)

text \<open>
  C5. The sender \<^verbatim>\<open>alice@notgmail.com\<close> has the domain \<^verbatim>\<open>notgmail.com\<close>, which is none
  of the known providers, and no SMTP server is configured. The test
  \<^verbatim>\<open>"gmail.com" in sender_email.lower()\<close> looks at the whole address, so
  \<^verbatim>\<open>send_email\<close> takes \<^verbatim>\<open>smtp.gmail.com:587\<close> and delivers through it.
\<close>

theorem send_email_guesses_relay_for_lookalike_domain:
  "getenv (scripted_env lookalike_vars (\<lambda>w req. NoContent) (\<lambda>w req. Accepted)) ''SMTP_SERVER''
     = None \<and>
   lower (domain_of ''alice@notgmail.com'') \<notin> set known_provider_domains \<and>
   send_email (scripted_env lookalike_vars (\<lambda>w req. NoContent) (\<lambda>w req. Accepted)) start
       ''kim@example.org'' ''Hello'' ''Body'' =
     ((True, ''Email sent successfully to kim@example.org! Check your inbox (and spam folder).''),
      \<lparr>world = 1,
       smtp_log = [\<lparr>host = ''smtp.gmail.com'', port = 587, timeout = 10,
                    login_user = ''alice@notgmail.com'', login_password = ''app-password'',
                    from_addr = ''alice@notgmail.com'', to_addrs = [''kim@example.org''],
                    msg_From = ''alice@notgmail.com'', msg_To = ''kim@example.org'',
                    msg_Subject = ''Hello'', msg_body = ''Body''\<rparr>],
       chat_log = []\<rparr>)"
  by (simp add: send_email_def send_email_try_def deliver_def
      resolve_endpoint_def with_server_def port_or_587_def scripted_env_def lookalike_vars_def
      py_truthy_def start_def lower_def lower_char_def Let_def domain_of_def
      known_provider_domains_def)

text \<open>
  C6. \<^verbatim>\<open>send_email\<close> always returns a pair of a success flag and a message, whatever
  the environment and the mail relay do. Without a sender address or a password it
  returns \<open>(False, message)\<close> of the missing configuration and the outside is untouched;
  with an address lacking \<^verbatim>\<open>@\<close> likewise. Otherwise, when \<^verbatim>\<open>int(smtp_port)\<close> raises,
  the exception becomes \<open>(False, message)\<close>; when the transport is unresolved, the
  message says so; and when it is resolved, the relay is contacted once with the request
  shown, and the answer of the relay decides the result: an
  \<^verbatim>\<open>SMTPAuthenticationError\<close> gives \<open>(False, Authentication failed: ...)\<close>, any other
  \<^verbatim>\<open>SMTPException\<close> gives \<open>(False, SMTP error: ...)\<close>, any other exception gives
  \<open>(False, Error sending email (type): ...)\<close>, refused recipients give \<open>(False, ...)\<close>, and
  only an accepted message gives \<open>True\<close>. The messages of an authentication failure, of
  another SMTP failure and of a missing configuration are pairwise different, whatever the
  texts of the exceptions.
\<close>

theorem send_email_returns_pair_with_failure_kinds:
  "(\<exists>success message st'. send_email env st to_email subject body = ((success, message), st')) \<and>
   (\<not> py_truthy (getenv env ''SENDER_EMAIL'') \<or> \<not> py_truthy (getenv env ''SENDER_PASSWORD'') \<longrightarrow>
      send_email env st to_email subject body =
        ((False, ''Email configuration missing. Please set SENDER_EMAIL and SENDER_PASSWORD in .env file''), st)) \<and>
   (py_truthy (getenv env ''SENDER_EMAIL'') \<and> py_truthy (getenv env ''SENDER_PASSWORD'') \<and>
    (\<not> py_in ''@'' to_email \<or> \<not> py_in ''@'' (the (getenv env ''SENDER_EMAIL''))) \<longrightarrow>
      send_email env st to_email subject body =
        ((False, ''Invalid email format. To: '' @ to_email @ '', From: '' @
                 the (getenv env ''SENDER_EMAIL'')), st)) \<and>
   (py_truthy (getenv env ''SENDER_EMAIL'') \<and> py_truthy (getenv env ''SENDER_PASSWORD'') \<and>
    py_in ''@'' to_email \<and> py_in ''@'' (the (getenv env ''SENDER_EMAIL'')) \<longrightarrow>
      (case resolve_endpoint (the (getenv env ''SENDER_EMAIL'')) (getenv env ''SMTP_SERVER'')
              (getenv env ''SMTP_PORT'') of
         Inl raised \<Rightarrow>
           send_email env st to_email subject body =
             ((case raised of
                 SMTPAuthenticationError e \<Rightarrow>
                   (False, ''Authentication failed: '' @ e @
                      ''. Check your email and password. For Gmail, use an App Password. For custom domains, verify SMTP credentials.'')
               | SMTPException e \<Rightarrow>
                   (False, ''SMTP error: '' @ e @ ''. Check SMTP_SERVER and SMTP_PORT settings.'')
               | OtherException error_type e \<Rightarrow>
                   (False, ''Error sending email ('' @ error_type @ ''): '' @ e @
                      ''. Verify your email configuration in .env file.'')), st)
       | Inr (Unresolved m) \<Rightarrow> send_email env st to_email subject body = ((False, m), st)
       | Inr (Endpoint srv p) \<Rightarrow>
           send_email env st to_email subject body =
             ((case fst (smtp_session env (world st)
                      \<lparr>host = srv, port = p, timeout = 10,
                       login_user = the (getenv env ''SENDER_EMAIL''),
                       login_password = the (getenv env ''SENDER_PASSWORD''),
                       from_addr = the (getenv env ''SENDER_EMAIL''), to_addrs = [to_email],
                       msg_From = the (getenv env ''SENDER_EMAIL''), msg_To = to_email,
                       msg_Subject = subject, msg_body = body\<rparr>) of
                 SmtpRaised (SMTPAuthenticationError e) \<Rightarrow>
                   (False, ''Authentication failed: '' @ e @
                      ''. Check your email and password. For Gmail, use an App Password. For custom domains, verify SMTP credentials.'')
               | SmtpRaised (SMTPException e) \<Rightarrow>
                   (False, ''SMTP error: '' @ e @ ''. Check SMTP_SERVER and SMTP_PORT settings.'')
               | SmtpRaised (OtherException error_type e) \<Rightarrow>
                   (False, ''Error sending email ('' @ error_type @ ''): '' @ e @
                      ''. Verify your email configuration in .env file.'')
               | SendErrors send_errors \<Rightarrow>
                   (False, ''Email sending reported errors: '' @ send_errors)
               | Accepted \<Rightarrow>
                   (True, ''Email sent successfully to '' @ to_email @
                      ''! Check your inbox (and spam folder).'')),
              st\<lparr>world := snd (smtp_session env (world st)
                      \<lparr>host = srv, port = p, timeout = 10,
                       login_user = the (getenv env ''SENDER_EMAIL''),
                       login_password = the (getenv env ''SENDER_PASSWORD''),
                       from_addr = the (getenv env ''SENDER_EMAIL''), to_addrs = [to_email],
                       msg_From = the (getenv env ''SENDER_EMAIL''), msg_To = to_email,
                       msg_Subject = subject, msg_body = body\<rparr>),
                 smtp_log := smtp_log st @
                      [\<lparr>host = srv, port = p, timeout = 10,
                        login_user = the (getenv env ''SENDER_EMAIL''),
                        login_password = the (getenv env ''SENDER_PASSWORD''),
                        from_addr = the (getenv env ''SENDER_EMAIL''), to_addrs = [to_email],
                        msg_From = the (getenv env ''SENDER_EMAIL''), msg_To = to_email,
                        msg_Subject = subject, msg_body = body\<rparr>]\<rparr>))) \<and>
   (\<forall>e1 e2.
      ''Authentication failed: '' @ e1 @
        ''. Check your email and password. For Gmail, use an App Password. For custom domains, verify SMTP credentials.'' \<noteq>
      ''SMTP error: '' @ e2 @ ''. Check SMTP_SERVER and SMTP_PORT settings.'' \<and>
      ''Authentication failed: '' @ e1 @
        ''. Check your email and password. For Gmail, use an App Password. For custom domains, verify SMTP credentials.'' \<noteq>
        ''Email configuration missing. Please set SENDER_EMAIL and SENDER_PASSWORD in .env file'' \<and>
      ''SMTP error: '' @ e2 @ ''. Check SMTP_SERVER and SMTP_PORT settings.'' \<noteq>
        ''Email configuration missing. Please set SENDER_EMAIL and SENDER_PASSWORD in .env file'')"
proof (intro conjI allI impI)
  show "\<exists>success message st'. send_email env st to_email subject body = ((success, message), st')"
    by (cases "send_email env st to_email subject body") auto
next
  assume "\<not> py_truthy (getenv env ''SENDER_EMAIL'') \<or> \<not> py_truthy (getenv env ''SENDER_PASSWORD'')"
  then show "send_email env st to_email subject body =
        ((False, ''Email configuration missing. Please set SENDER_EMAIL and SENDER_PASSWORD in .env file''), st)"
    by (auto simp: send_email_def send_email_try_def Let_def)
next
  assume "py_truthy (getenv env ''SENDER_EMAIL'') \<and> py_truthy (getenv env ''SENDER_PASSWORD'') \<and>
    (\<not> py_in ''@'' to_email \<or> \<not> py_in ''@'' (the (getenv env ''SENDER_EMAIL'')))"
  then show "send_email env st to_email subject body =
        ((False, ''Invalid email format. To: '' @ to_email @ '', From: '' @
                 the (getenv env ''SENDER_EMAIL'')), st)"
    by (auto simp: send_email_def send_email_try_def Let_def)
next
  assume a: "py_truthy (getenv env ''SENDER_EMAIL'') \<and> py_truthy (getenv env ''SENDER_PASSWORD'') \<and>
    py_in ''@'' to_email \<and> py_in ''@'' (the (getenv env ''SENDER_EMAIL''))"
  then have t: "send_email_try env st to_email subject body =
      (case resolve_endpoint (the (getenv env ''SENDER_EMAIL'')) (getenv env ''SMTP_SERVER'')
              (getenv env ''SMTP_PORT'') of
         Inl e \<Rightarrow> (Inl e, st)
       | Inr (Unresolved m) \<Rightarrow> (Inr (False, m), st)
       | Inr (Endpoint srv p) \<Rightarrow>
           deliver env st (the (getenv env ''SENDER_EMAIL'')) (the (getenv env ''SENDER_PASSWORD''))
             srv p to_email subject body)"
    by (simp add: send_email_try_def Let_def)
  show "(case resolve_endpoint (the (getenv env ''SENDER_EMAIL'')) (getenv env ''SMTP_SERVER'')
              (getenv env ''SMTP_PORT'') of
         Inl raised \<Rightarrow>
           send_email env st to_email subject body =
             ((case raised of
                 SMTPAuthenticationError e \<Rightarrow>
                   (False, ''Authentication failed: '' @ e @
                      ''. Check your email and password. For Gmail, use an App Password. For custom domains, verify SMTP credentials.'')
               | SMTPException e \<Rightarrow>
                   (False, ''SMTP error: '' @ e @ ''. Check SMTP_SERVER and SMTP_PORT settings.'')
               | OtherException error_type e \<Rightarrow>
                   (False, ''Error sending email ('' @ error_type @ ''): '' @ e @
                      ''. Verify your email configuration in .env file.'')), st)
       | Inr (Unresolved m) \<Rightarrow> send_email env st to_email subject body = ((False, m), st)
       | Inr (Endpoint srv p) \<Rightarrow>
           send_email env st to_email subject body =
             ((case fst (smtp_session env (world st)
                      \<lparr>host = srv, port = p, timeout = 10,
                       login_user = the (getenv env ''SENDER_EMAIL''),
                       login_password = the (getenv env ''SENDER_PASSWORD''),
                       from_addr = the (getenv env ''SENDER_EMAIL''), to_addrs = [to_email],
                       msg_From = the (getenv env ''SENDER_EMAIL''), msg_To = to_email,
                       msg_Subject = subject, msg_body = body\<rparr>) of
                 SmtpRaised (SMTPAuthenticationError e) \<Rightarrow>
                   (False, ''Authentication failed: '' @ e @
                      ''. Check your email and password. For Gmail, use an App Password. For custom domains, verify SMTP credentials.'')
               | SmtpRaised (SMTPException e) \<Rightarrow>
                   (False, ''SMTP error: '' @ e @ ''. Check SMTP_SERVER and SMTP_PORT settings.'')
               | SmtpRaised (OtherException error_type e) \<Rightarrow>
                   (False, ''Error sending email ('' @ error_type @ ''): '' @ e @
                      ''. Verify your email configuration in .env file.'')
               | SendErrors send_errors \<Rightarrow>
                   (False, ''Email sending reported errors: '' @ send_errors)
               | Accepted \<Rightarrow>
                   (True, ''Email sent successfully to '' @ to_email @
                      ''! Check your inbox (and spam folder).'')),
              st\<lparr>world := snd (smtp_session env (world st)
                      \<lparr>host = srv, port = p, timeout = 10,
                       login_user = the (getenv env ''SENDER_EMAIL''),
                       login_password = the (getenv env ''SENDER_PASSWORD''),
                       from_addr = the (getenv env ''SENDER_EMAIL''), to_addrs = [to_email],
                       msg_From = the (getenv env ''SENDER_EMAIL''), msg_To = to_email,
                       msg_Subject = subject, msg_body = body\<rparr>),
                 smtp_log := smtp_log st @
                      [\<lparr>host = srv, port = p, timeout = 10,
                        login_user = the (getenv env ''SENDER_EMAIL''),
                        login_password = the (getenv env ''SENDER_PASSWORD''),
                        from_addr = the (getenv env ''SENDER_EMAIL''), to_addrs = [to_email],
                        msg_From = the (getenv env ''SENDER_EMAIL''), msg_To = to_email,
                        msg_Subject = subject, msg_body = body\<rparr>]\<rparr>))"
    unfolding send_email_def t
    by (simp add: deliver_def Let_def send_email_except_fails
        split: sum.splits endpoint.splits prod.splits smtp_outcome.splits exn.splits)
qed simp_all

theorem send_email_returns_pair_with_failure_kinds_witness:
  "\<not> py_truthy (getenv (scripted_env Map.empty (\<lambda>w req. NoContent) (\<lambda>w req. Accepted)) ''SENDER_EMAIL'') \<and>
   send_email (scripted_env Map.empty (\<lambda>w req. NoContent) (\<lambda>w req. Accepted)) start
       ''kim@example.org'' ''Hello'' ''Body'' =
     ((False, ''Email configuration missing. Please set SENDER_EMAIL and SENDER_PASSWORD in .env file''), start) \<and>
   py_truthy (getenv (scripted_env gmail_vars (\<lambda>w req. NoContent)
       (\<lambda>w req. SmtpRaised (SMTPAuthenticationError ''(535, bad credentials)''))) ''SENDER_EMAIL'') \<and>
   py_truthy (getenv (scripted_env gmail_vars (\<lambda>w req. NoContent)
       (\<lambda>w req. SmtpRaised (SMTPAuthenticationError ''(535, bad credentials)''))) ''SENDER_PASSWORD'') \<and>
   py_in ''@'' ''kim@example.org'' \<and>
   fst (send_email (scripted_env gmail_vars (\<lambda>w req. NoContent)
       (\<lambda>w req. SmtpRaised (SMTPAuthenticationError ''(535, bad credentials)''))) start
       ''kim@example.org'' ''Hello'' ''Body'') =
     (False, ''Authentication failed: (535, bad credentials). Check your email and password. For Gmail, use an App Password. For custom domains, verify SMTP credentials.'') \<and>
   smtp_log (snd (send_email (scripted_env gmail_vars (\<lambda>w req. NoContent)
       (\<lambda>w req. SmtpRaised (SMTPAuthenticationError ''(535, bad credentials)''))) start
       ''kim@example.org'' ''Hello'' ''Body'')) =
     [\<lparr>host = ''smtp.gmail.com'', port = 587, timeout = 10,
       login_user = ''team@gmail.com'', login_password = ''app-password'',
       from_addr = ''team@gmail.com'', to_addrs = [''kim@example.org''],
       msg_From = ''team@gmail.com'', msg_To = ''kim@example.org'',
       msg_Subject = ''Hello'', msg_body = ''Body''\<rparr>]"
proof -
  let ?none = "scripted_env Map.empty (\<lambda>w req. NoContent) (\<lambda>w req. Accepted)"
  let ?auth = "scripted_env gmail_vars (\<lambda>w req. NoContent)
       (\<lambda>w req. SmtpRaised (SMTPAuthenticationError ''(535, bad credentials)''))"
  have h0: "\<not> py_truthy (getenv ?none ''SENDER_EMAIL'')"
    by (simp add: scripted_env_def py_truthy_def)
  from send_email_returns_pair_with_failure_kinds
         [of ?none start "''kim@example.org''" "''Hello''" "''Body''"] h0
  have w0: "send_email ?none start ''kim@example.org'' ''Hello'' ''Body'' =
     ((False, ''Email configuration missing. Please set SENDER_EMAIL and SENDER_PASSWORD in .env file''), start)"
    by blast
  have g: "getenv ?auth ''SENDER_EMAIL'' = Some ''team@gmail.com''"
    "getenv ?auth ''SENDER_PASSWORD'' = Some ''app-password''"
    "getenv ?auth ''SMTP_SERVER'' = None" "getenv ?auth ''SMTP_PORT'' = None"
    by (simp_all add: scripted_env_def gmail_vars_def)
  have h1: "py_truthy (getenv ?auth ''SENDER_EMAIL'')"
    and h2: "py_truthy (getenv ?auth ''SENDER_PASSWORD'')"
    and h3: "py_in ''@'' ''kim@example.org''"
    and h4: "py_in ''@'' (the (getenv ?auth ''SENDER_EMAIL''))"
    by (simp_all add: g py_truthy_def)
  have ep: "resolve_endpoint (the (getenv ?auth ''SENDER_EMAIL'')) (getenv ?auth ''SMTP_SERVER'')
              (getenv ?auth ''SMTP_PORT'') = Inr (Endpoint ''smtp.gmail.com'' 587)"
    by (simp add: g resolve_endpoint_def with_server_def port_or_587_def py_truthy_def
        lower_def lower_char_def)
  have relay: "smtp_session ?auth w req =
      (SmtpRaised (SMTPAuthenticationError ''(535, bad credentials)''), Suc w)" for w req
    by (simp add: scripted_env_def)
  from send_email_returns_pair_with_failure_kinds
         [of ?auth start "''kim@example.org''" "''Hello''" "''Body''"] h1 h2 h3 h4
  have "(case resolve_endpoint (the (getenv ?auth ''SENDER_EMAIL'')) (getenv ?auth ''SMTP_SERVER'')
              (getenv ?auth ''SMTP_PORT'') of
         Inl raised \<Rightarrow>
           send_email ?auth start ''kim@example.org'' ''Hello'' ''Body'' =
             ((case raised of
                 SMTPAuthenticationError e \<Rightarrow>
                   (False, ''Authentication failed: '' @ e @
                      ''. Check your email and password. For Gmail, use an App Password. For custom domains, verify SMTP credentials.'')
               | SMTPException e \<Rightarrow>
                   (False, ''SMTP error: '' @ e @ ''. Check SMTP_SERVER and SMTP_PORT settings.'')
               | OtherException error_type e \<Rightarrow>
                   (False, ''Error sending email ('' @ error_type @ ''): '' @ e @
                      ''. Verify your email configuration in .env file.'')), start)
       | Inr (Unresolved m) \<Rightarrow>
           send_email ?auth start ''kim@example.org'' ''Hello'' ''Body'' = ((False, m), start)
       | Inr (Endpoint srv p) \<Rightarrow>
           send_email ?auth start ''kim@example.org'' ''Hello'' ''Body'' =
             ((case fst (smtp_session ?auth (world start)
                      \<lparr>host = srv, port = p, timeout = 10,
                       login_user = the (getenv ?auth ''SENDER_EMAIL''),
                       login_password = the (getenv ?auth ''SENDER_PASSWORD''),
                       from_addr = the (getenv ?auth ''SENDER_EMAIL''),
                       to_addrs = [''kim@example.org''],
                       msg_From = the (getenv ?auth ''SENDER_EMAIL''), msg_To = ''kim@example.org'',
                       msg_Subject = ''Hello'', msg_body = ''Body''\<rparr>) of
                 SmtpRaised (SMTPAuthenticationError e) \<Rightarrow>
                   (False, ''Authentication failed: '' @ e @
                      ''. Check your email and password. For Gmail, use an App Password. For custom domains, verify SMTP credentials.'')
               | SmtpRaised (SMTPException e) \<Rightarrow>
                   (False, ''SMTP error: '' @ e @ ''. Check SMTP_SERVER and SMTP_PORT settings.'')
               | SmtpRaised (OtherException error_type e) \<Rightarrow>
                   (False, ''Error sending email ('' @ error_type @ ''): '' @ e @
                      ''. Verify your email configuration in .env file.'')
               | SendErrors send_errors \<Rightarrow>
                   (False, ''Email sending reported errors: '' @ send_errors)
               | Accepted \<Rightarrow>
                   (True, ''Email sent successfully to '' @ ''kim@example.org'' @
                      ''! Check your inbox (and spam folder).'')),
              start\<lparr>world := snd (smtp_session ?auth (world start)
                      \<lparr>host = srv, port = p, timeout = 10,
                       login_user = the (getenv ?auth ''SENDER_EMAIL''),
                       login_password = the (getenv ?auth ''SENDER_PASSWORD''),
                       from_addr = the (getenv ?auth ''SENDER_EMAIL''),
                       to_addrs = [''kim@example.org''],
                       msg_From = the (getenv ?auth ''SENDER_EMAIL''), msg_To = ''kim@example.org'',
                       msg_Subject = ''Hello'', msg_body = ''Body''\<rparr>),
                 smtp_log := smtp_log start @
                      [\<lparr>host = srv, port = p, timeout = 10,
                        login_user = the (getenv ?auth ''SENDER_EMAIL''),
                        login_password = the (getenv ?auth ''SENDER_PASSWORD''),
                        from_addr = the (getenv ?auth ''SENDER_EMAIL''),
                        to_addrs = [''kim@example.org''],
                        msg_From = the (getenv ?auth ''SENDER_EMAIL''), msg_To = ''kim@example.org'',
                        msg_Subject = ''Hello'', msg_body = ''Body''\<rparr>]\<rparr>))"
    by blast
  then have w1: "send_email ?auth start ''kim@example.org'' ''Hello'' ''Body'' =
      ((False, ''Authentication failed: (535, bad credentials). Check your email and password. For Gmail, use an App Password. For custom domains, verify SMTP credentials.''),
       start\<lparr>world := Suc (world start),
             smtp_log := smtp_log start @
               [\<lparr>host = ''smtp.gmail.com'', port = 587, timeout = 10,
                 login_user = ''team@gmail.com'', login_password = ''app-password'',
                 from_addr = ''team@gmail.com'', to_addrs = [''kim@example.org''],
                 msg_From = ''team@gmail.com'', msg_To = ''kim@example.org'',
                 msg_Subject = ''Hello'', msg_body = ''Body''\<rparr>]\<rparr>)"
    unfolding ep by (simp add: relay g)
  have "smtp_log start = []" by (simp add: start_def)
  with h0 w0 h1 h2 h3 w1 show ?thesis by simp
qed

lemma send_email_authentication_failure_example:
  "fst (send_email (scripted_env gmail_vars (\<lambda>w req. NoContent)
       (\<lambda>w req. SmtpRaised (SMTPAuthenticationError ''(535, bad credentials)''))) start
       ''kim@example.org'' ''Hello'' ''Body'') =
     (False, ''Authentication failed: (535, bad credentials). Check your email and password. For Gmail, use an App Password. For custom domains, verify SMTP credentials.'')"
  by (simp add: send_email_def send_email_try_def deliver_def
      resolve_endpoint_def with_server_def port_or_587_def scripted_env_def gmail_vars_def
      py_truthy_def start_def lower_def lower_char_def Let_def)

section \<open>The escalation notifier\<close>

text \<open>
  C9. The team address of \<^verbatim>\<open>send_team_notification\<close> is \<^verbatim>\<open>SENDER_EMAIL\<close>. When it is
  unset (or empty), the notifier returns \<open>(False, message)\<close> and the state of the outside
  is unchanged: nothing was dispatched. When it is set, the notifier is \<^verbatim>\<open>send_email\<close>
  to that address; at most one request reaches the relay, and its recipient, its
  \<^verbatim>\<open>To\<close> header and its sender are all \<^verbatim>\<open>SENDER_EMAIL\<close>.
\<close>

theorem team_notification_to_sender:
  "(\<not> py_truthy (getenv env ''SENDER_EMAIL'') \<longrightarrow>
      send_team_notification env st customer_id customer_email date_cancelled =
        ((False, ''SENDER_EMAIL not set in .env file''), st)) \<and>
   (py_truthy (getenv env ''SENDER_EMAIL'') \<longrightarrow>
      send_team_notification env st customer_id customer_email date_cancelled =
        send_email env st (the (getenv env ''SENDER_EMAIL''))
          ''Manual Review Required - Customer Cancellation''
          (notification_body customer_id customer_email date_cancelled)) \<and>
   (\<exists>new. smtp_log (snd (send_team_notification env st customer_id customer_email date_cancelled))
            = smtp_log st @ new \<and> length new \<le> 1 \<and>
          (\<forall>req \<in> set new.
             to_addrs req = [the (getenv env ''SENDER_EMAIL'')] \<and>
             msg_To req = the (getenv env ''SENDER_EMAIL'') \<and>
             from_addr req = the (getenv env ''SENDER_EMAIL'')))"
proof (intro conjI impI)
  assume "\<not> py_truthy (getenv env ''SENDER_EMAIL'')"
  then show "send_team_notification env st customer_id customer_email date_cancelled =
        ((False, ''SENDER_EMAIL not set in .env file''), st)"
    by (simp add: send_team_notification_def)
next
  assume "py_truthy (getenv env ''SENDER_EMAIL'')"
  then show "send_team_notification env st customer_id customer_email date_cancelled =
        send_email env st (the (getenv env ''SENDER_EMAIL''))
          ''Manual Review Required - Customer Cancellation''
          (notification_body customer_id customer_email date_cancelled)"
    by (simp add: send_team_notification_def)
next
  let ?r = "send_team_notification env st customer_id customer_email date_cancelled"
  let ?s = "the (getenv env ''SENDER_EMAIL'')"
  show "\<exists>new. smtp_log (snd ?r) = smtp_log st @ new \<and> length new \<le> 1 \<and>
          (\<forall>req \<in> set new. to_addrs req = [?s] \<and> msg_To req = ?s \<and> from_addr req = ?s)"
  proof (cases "py_truthy (getenv env ''SENDER_EMAIL'')")
    case False
    then have "smtp_log (snd ?r) = smtp_log st @ []"
      by (simp add: send_team_notification_def)
    then show ?thesis by (intro exI [of _ "[]"]) simp
  next
    case True
    then have r: "?r = send_email env st ?s ''Manual Review Required - Customer Cancellation''
          (notification_body customer_id customer_email date_cancelled)"
      by (simp add: send_team_notification_def)
    from send_email_log [of env st ?s "''Manual Review Required - Customer Cancellation''"
        "notification_body customer_id customer_email date_cancelled"]
    show ?thesis
    proof
      assume "smtp_log (snd (send_email env st ?s ''Manual Review Required - Customer Cancellation''
          (notification_body customer_id customer_email date_cancelled))) = smtp_log st \<and>
        world (snd (send_email env st ?s ''Manual Review Required - Customer Cancellation''
          (notification_body customer_id customer_email date_cancelled))) = world st"
      with r show ?thesis by (intro exI [of _ "[]"]) simp
    next
      assume "\<exists>srv p. smtp_log (snd (send_email env st ?s ''Manual Review Required - Customer Cancellation''
          (notification_body customer_id customer_email date_cancelled))) =
        smtp_log st @ [\<lparr>host = srv, port = p, timeout = 10, login_user = ?s,
          login_password = the (getenv env ''SENDER_PASSWORD''),
          from_addr = ?s, to_addrs = [?s], msg_From = ?s, msg_To = ?s,
          msg_Subject = ''Manual Review Required - Customer Cancellation'',
          msg_body = notification_body customer_id customer_email date_cancelled\<rparr>]"
      then obtain srv p where
        "smtp_log (snd ?r) = smtp_log st @ [\<lparr>host = srv, port = p, timeout = 10, login_user = ?s,
          login_password = the (getenv env ''SENDER_PASSWORD''),
          from_addr = ?s, to_addrs = [?s], msg_From = ?s, msg_To = ?s,
          msg_Subject = ''Manual Review Required - Customer Cancellation'',
          msg_body = notification_body customer_id customer_email date_cancelled\<rparr>]"
        using r by auto
      then show ?thesis
        by (intro exI [of _ "[\<lparr>host = srv, port = p, timeout = 10, login_user = ?s,
          login_password = the (getenv env ''SENDER_PASSWORD''),
          from_addr = ?s, to_addrs = [?s], msg_From = ?s, msg_To = ?s,
          msg_Subject = ''Manual Review Required - Customer Cancellation'',
          msg_body = notification_body customer_id customer_email date_cancelled\<rparr>]"]) simp
    qed
  qed
qed

theorem team_notification_to_sender_witness:
  "\<not> py_truthy (getenv (scripted_env Map.empty (\<lambda>w req. NoContent) (\<lambda>w req. Accepted))
       ''SENDER_EMAIL'') \<and>
   send_team_notification (scripted_env Map.empty (\<lambda>w req. NoContent) (\<lambda>w req. Accepted))
       start ''CUST-007'' ''kim@example.org'' ''2024-02-28'' =
     ((False, ''SENDER_EMAIL not set in .env file''), start)"
proof -
  have h: "\<not> py_truthy (getenv (scripted_env Map.empty (\<lambda>w req. NoContent) (\<lambda>w req. Accepted))
       ''SENDER_EMAIL'')"
    by (simp add: scripted_env_def py_truthy_def)
  from team_notification_to_sender
         [of "scripted_env Map.empty (\<lambda>w req. NoContent) (\<lambda>w req. Accepted)" start
             "''CUST-007''" "''kim@example.org''" "''2024-02-28''"] h
  show ?thesis by blast
qed

lemma team_notification_reaches_sender_example:
  "smtp_log (snd (send_team_notification
       (scripted_env gmail_vars (\<lambda>w req. NoContent) (\<lambda>w req. Accepted))
       start ''CUST-007'' ''kim@example.org'' ''2024-02-28'')) =
     [\<lparr>host = ''smtp.gmail.com'', port = 587, timeout = 10,
       login_user = ''team@gmail.com'', login_password = ''app-password'',
       from_addr = ''team@gmail.com'', to_addrs = [''team@gmail.com''],
       msg_From = ''team@gmail.com'', msg_To = ''team@gmail.com'',
       msg_Subject = ''Manual Review Required - Customer Cancellation'',
       msg_body = notification_body ''CUST-007'' ''kim@example.org'' ''2024-02-28''\<rparr>]"
  by (simp add: send_team_notification_def send_email_def send_email_try_def deliver_def
      resolve_endpoint_def with_server_def port_or_587_def scripted_env_def gmail_vars_def
      py_truthy_def start_def lower_def lower_char_def Let_def)

section \<open>The two agents on every record\<close>

lemma offer_matcher_agent_state:
  "snd (offer_matcher_agent env st r db) =
     st\<lparr>world := snd (chat_create env (world st) (matcher_request r db)),
        chat_log := chat_log st @ [matcher_request r db]\<rparr>"
  by (simp add: offer_matcher_agent_def offer_matcher_try_def Let_def
      split: prod.splits sum.splits chat_reply.splits)

lemma email_writer_agent_state:
  "snd (email_writer_agent env st m r e) =
     st\<lparr>world := snd (chat_create env (world st) (writer_request m r e)),
        chat_log := chat_log st @ [writer_request m r e]\<rparr>"
  by (simp add: email_writer_agent_def Let_def split: prod.splits chat_reply.splits)

lemma run_agents_match_result:
  "fst (fst (run_agents env st db r e)) = fst (offer_matcher_agent env st r db)"
  by (simp add: run_agents_def Let_def split: prod.splits)


lemma run_agents_smtp_log:
  "smtp_log (snd (run_agents env st db r e)) = smtp_log st"
proof -
  obtain m st1 where m: "offer_matcher_agent env st r db = (m, st1)"
    by (cases "offer_matcher_agent env st r db")
  obtain c st2 where c: "email_writer_agent env st1 (matched_offer_text m) r e = (c, st2)"
    by (cases "email_writer_agent env st1 (matched_offer_text m) r e")
  have "st1 = snd (offer_matcher_agent env st r db)" using m by simp
  then have l1: "smtp_log st1 = smtp_log st"
    by (simp add: offer_matcher_agent_state)
  have "st2 = snd (email_writer_agent env st1 (matched_offer_text m) r e)" using c by simp
  then have l2: "smtp_log st2 = smtp_log st1"
    by (simp add: email_writer_agent_state)
  have "snd (run_agents env st db r e) = st2"
    using m c by (simp add: run_agents_def Let_def)
  with l1 l2 show ?thesis by simp
qed







section \<open>Submitting the single form again\<close>

text \<open>
  C8. When the form is submitted with a reason, whatever the session held before, the
  flags \<^verbatim>\<open>email_sent\<close> and \<^verbatim>\<open>team_notification_sent\<close> are false after lines 366-431,
  and, the client being available so that the workflow runs, \<^verbatim>\<open>processed_data\<close> is the
  new result: the values of the form and what the two agents return now. Without an API
  key \<^verbatim>\<open>st.stop()\<close> ends the run after the flags were reset and the workflow does not run.
\<close>

theorem resubmission_resets_flags_and_replaces_result:
  assumes "submitted f" and "form_cancellation_reason f \<noteq> []"
  shows "\<not> email_sent (fst (snd (tab1_process env st ss f))) \<and>
         \<not> team_notification_sent (fst (snd (tab1_process env st ss f))) \<and>
         (case get_openai_client env of
            None \<Rightarrow>
              fst (tab1_process env st ss f) = Stopped \<and>
              processed_data (fst (snd (tab1_process env st ss f))) = processed_data ss
          | Some client \<Rightarrow>
              fst (tab1_process env st ss f) = Continues \<and>
              processed_data (fst (snd (tab1_process env st ss f))) =
                Some \<lparr>data_customer_id = form_customer_id f,
                      data_customer_email = form_customer_email f,
                      data_cancellation_reason = form_cancellation_reason f,
                      data_date_cancelled = form_date_cancelled f,
                      data_match_result =
                        fst (fst (run_agents env st get_offers_database
                                    (form_cancellation_reason f) (form_customer_email f))),
                      data_email_content =
                        fst (snd (fst (run_agents env st get_offers_database
                                         (form_cancellation_reason f) (form_customer_email f)))),
                      data_is_match =
                        snd (snd (fst (run_agents env st get_offers_database
                                         (form_cancellation_reason f) (form_customer_email f))))\<rparr>)"
  using assms
  by (simp add: tab1_process_def Let_def split: option.splits prod.splits)

theorem resubmission_resets_flags_and_replaces_result_witness:
  "email_sent \<lparr>processed_data = None, email_sent = True, team_notification_sent = True,
               csv_results = None\<rparr> \<and>
   team_notification_sent \<lparr>processed_data = None, email_sent = True,
               team_notification_sent = True, csv_results = None\<rparr> \<and>
   \<not> email_sent (fst (snd (tab1_process
        (scripted_env gmail_vars (\<lambda>w req. ChatRaised ''Request timed out.'') (\<lambda>w req. Accepted))
        start
        \<lparr>processed_data = None, email_sent = True, team_notification_sent = True,
         csv_results = None\<rparr>
        \<lparr>form_customer_id = ''CUST-001'', form_customer_email = ''kim@example.org'',
         form_cancellation_reason = ''moving abroad'', form_date_cancelled = ''2024-02-28'',
         submitted = True\<rparr>))) \<and>
   \<not> team_notification_sent (fst (snd (tab1_process
        (scripted_env gmail_vars (\<lambda>w req. ChatRaised ''Request timed out.'') (\<lambda>w req. Accepted))
        start
        \<lparr>processed_data = None, email_sent = True, team_notification_sent = True,
         csv_results = None\<rparr>
        \<lparr>form_customer_id = ''CUST-001'', form_customer_email = ''kim@example.org'',
         form_cancellation_reason = ''moving abroad'', form_date_cancelled = ''2024-02-28'',
         submitted = True\<rparr>)))"
proof -
  let ?f = "\<lparr>form_customer_id = ''CUST-001'', form_customer_email = ''kim@example.org'',
         form_cancellation_reason = ''moving abroad'', form_date_cancelled = ''2024-02-28'',
         submitted = True\<rparr>"
  have h1: "submitted ?f" by simp
  have h2: "form_cancellation_reason ?f \<noteq> []" by simp
  from resubmission_resets_flags_and_replaces_result [OF h1 h2,
         of "scripted_env gmail_vars (\<lambda>w req. ChatRaised ''Request timed out.'')
               (\<lambda>w req. Accepted)" start
            "\<lparr>processed_data = None, email_sent = True, team_notification_sent = True,
              csv_results = None\<rparr>"]
  show ?thesis by simp
qed

lemma submission_without_reason_changes_nothing:
  "form_cancellation_reason f = [] \<Longrightarrow> tab1_process env st ss f = (Continues, ss, st)"
  by (simp add: tab1_process_def)

text \<open>
  What follows in the same run (lines 434-507): with a match nothing is sent before the
  button is pressed, and not again once \<^verbatim>\<open>email_sent\<close> is set; without a match the team
  is notified unless \<^verbatim>\<open>team_notification_sent\<close> is set, and the flag becomes the success
  of that notification.
\<close>

lemma tab1_display_guards:
  assumes "processed_data ss = Some data"
  shows "data_is_match data \<Longrightarrow> email_sent ss \<Longrightarrow>
           tab1_display env st ss send_clicked = (ss, st)"
    and "\<not> data_is_match data \<Longrightarrow> team_notification_sent ss \<Longrightarrow>
           tab1_display env st ss send_clicked = (ss, st)"
    and "\<not> data_is_match data \<Longrightarrow> \<not> team_notification_sent ss \<Longrightarrow>
           team_notification_sent (fst (tab1_display env st ss send_clicked)) =
             fst (fst (send_team_notification env st (data_customer_id data)
                         (data_customer_email data) (data_date_cancelled data)))"
  using assms by (auto simp: tab1_display_def Let_def split: prod.splits)

section \<open>The batch: one result per row, in the order of the rows\<close>

lemma process_row_fields:
  "Email (fst (process_row env st db idx row)) = strip (cell_str (col_Email row))"
  "Cancellation_Reason (fst (process_row env st db idx row)) =
     strip (cell_str (col_Cancellation_Reason row))"
  "Customer_ID (fst (process_row env st db idx row)) =
     (case col_Customer_ID row of
        None \<Rightarrow> strip (''CUST-'' @ fmt_03d (idx + 1))
      | Some NaN \<Rightarrow> ''CUST-'' @ fmt_03d (idx + 1)
      | Some (Cell v) \<Rightarrow> strip v)"
  "\<not> Email_Sent (fst (process_row env st db idx row))"
  by (simp_all add: process_row_def Let_def split: prod.splits)

lemma process_rows_acc:
  "\<exists>new sts. fst (process_rows env st db idx rows acc) = acc @ new \<and>
     length new = length rows \<and> length sts = length rows \<and>
     (\<forall>i<length rows. new ! i = fst (process_row env (sts ! i) db (idx + i) (rows ! i)))"
proof (induction rows arbitrary: st idx acc)
  case Nil
  show ?case by simp
next
  case (Cons row rows)
  obtain r st1 where r: "process_row env st db idx row = (r, st1)"
    by (cases "process_row env st db idx row")
  from Cons.IH [of st1 "Suc idx" "acc @ [r]"] obtain new sts where
    ih: "fst (process_rows env st1 db (Suc idx) rows (acc @ [r])) = (acc @ [r]) @ new"
      "length new = length rows" "length sts = length rows"
      "\<forall>i<length rows. new ! i = fst (process_row env (sts ! i) db (Suc idx + i) (rows ! i))"
    by blast
  have step: "process_rows env st db idx (row # rows) acc =
        process_rows env st1 db (Suc idx) rows (acc @ [r])"
    using r by simp
  have "\<forall>i<length (row # rows).
          (r # new) ! i = fst (process_row env ((st # sts) ! i) db (idx + i) ((row # rows) ! i))"
  proof (intro allI impI)
    fix i assume "i < length (row # rows)"
    then show "(r # new) ! i =
        fst (process_row env ((st # sts) ! i) db (idx + i) ((row # rows) ! i))"
      using r ih(4) by (cases i) auto
  qed
  with step ih(1-3) show ?case
    by (intro exI [of _ "r # new"] exI [of _ "st # sts"]) simp
qed

text \<open>
  C7. The loop over the rows of the data frame returns as many results as there are rows,
  and the result at position \<open>i\<close> is the result of processing row \<open>i\<close>: it carries that
  row's email, reason and customer ID. The button stores this list in the session, and
  the export, which exists when the list is not empty, has the exported columns of each
  result at the same position.
\<close>

theorem batch_one_result_per_row_in_order:
  fixes env :: "'w env" and st :: "'w state" and offers_db :: string and df :: "csv_row list"
  defines "results \<equiv> fst (process_rows env st offers_db 0 df [])"
  shows "length results = length df \<and>
         (\<forall>i<length df.
            (\<exists>st_i. results ! i = fst (process_row env st_i offers_db i (df ! i))) \<and>
            Email (results ! i) = strip (cell_str (col_Email (df ! i))) \<and>
            Cancellation_Reason (results ! i) =
              strip (cell_str (col_Cancellation_Reason (df ! i))) \<and>
            Customer_ID (results ! i) =
              (case col_Customer_ID (df ! i) of
                 None \<Rightarrow> strip (''CUST-'' @ fmt_03d (i + 1))
               | Some NaN \<Rightarrow> ''CUST-'' @ fmt_03d (i + 1)
               | Some (Cell v) \<Rightarrow> strip v)) \<and>
         (get_openai_client env \<noteq> None \<longrightarrow>
            csv_results (fst (snd (tab2_process_all env st ss df))) =
              Some (fst (process_rows env st get_offers_database 0 df []))) \<and>
         csv_export (ss\<lparr>csv_results := Some results\<rparr>) =
           (if df = [] then None else Some (map export_columns results)) \<and>
         (\<forall>i<length df. map export_columns results ! i = export_columns (results ! i) \<and>
            fst (snd (map export_columns results ! i)) = strip (cell_str (col_Email (df ! i))))"
proof -
  from process_rows_acc [of env st offers_db 0 df "[]"] obtain new sts where
    n: "results = new" "length new = length df" "length sts = length df"
       "\<forall>i<length df. new ! i = fst (process_row env (sts ! i) offers_db i (df ! i))"
    unfolding results_def by auto
  have len: "length results = length df" using n by simp
  have rows: "\<forall>i<length df.
            (\<exists>st_i. results ! i = fst (process_row env st_i offers_db i (df ! i))) \<and>
            Email (results ! i) = strip (cell_str (col_Email (df ! i))) \<and>
            Cancellation_Reason (results ! i) =
              strip (cell_str (col_Cancellation_Reason (df ! i))) \<and>
            Customer_ID (results ! i) =
              (case col_Customer_ID (df ! i) of
                 None \<Rightarrow> strip (''CUST-'' @ fmt_03d (i + 1))
               | Some NaN \<Rightarrow> ''CUST-'' @ fmt_03d (i + 1)
               | Some (Cell v) \<Rightarrow> strip v)"
  proof (intro allI impI)
    fix i assume i: "i < length df"
    with n have e: "results ! i = fst (process_row env (sts ! i) offers_db i (df ! i))"
      by simp
    then have "\<exists>st_i. results ! i = fst (process_row env st_i offers_db i (df ! i))"
      by blast
    with e show "(\<exists>st_i. results ! i = fst (process_row env st_i offers_db i (df ! i))) \<and>
            Email (results ! i) = strip (cell_str (col_Email (df ! i))) \<and>
            Cancellation_Reason (results ! i) =
              strip (cell_str (col_Cancellation_Reason (df ! i))) \<and>
            Customer_ID (results ! i) =
              (case col_Customer_ID (df ! i) of
                 None \<Rightarrow> strip (''CUST-'' @ fmt_03d (i + 1))
               | Some NaN \<Rightarrow> ''CUST-'' @ fmt_03d (i + 1)
               | Some (Cell v) \<Rightarrow> strip v)"
      by (simp add: process_row_fields)
  qed
  have stored: "get_openai_client env \<noteq> None \<longrightarrow>
            csv_results (fst (snd (tab2_process_all env st ss df))) =
              Some (fst (process_rows env st get_offers_database 0 df []))"
    by (auto simp: tab2_process_all_def Let_def split: prod.splits)
  have export: "csv_export (ss\<lparr>csv_results := Some results\<rparr>) =
           (if df = [] then None else Some (map export_columns results))"
    using len by (auto simp: csv_export_def)
  have exported: "\<forall>i<length df. map export_columns results ! i = export_columns (results ! i) \<and>
            fst (snd (map export_columns results ! i)) = strip (cell_str (col_Email (df ! i)))"
    using len rows by (simp add: export_columns_def)
  from len rows stored export exported show ?thesis by blast
qed

theorem batch_one_result_per_row_in_order_witness:
  "map Email (fst (process_rows
       (scripted_env gmail_vars (\<lambda>w req. ChatRaised ''Request timed out.'') (\<lambda>w req. Accepted))
       start get_offers_database 0
       [\<lparr>col_Email = Cell '' ann@example.org '', col_Cancellation_Reason = Cell ''too expensive'',
         col_Customer_ID = None, col_Date_Cancelled = None\<rparr>,
        \<lparr>col_Email = Cell ''bob@example.org'', col_Cancellation_Reason = NaN,
         col_Customer_ID = Some (Cell ''B-2''), col_Date_Cancelled = Some NaN\<rparr>] [])) =
     [''ann@example.org'', ''bob@example.org'']"
proof -
  let ?env = "scripted_env gmail_vars (\<lambda>w req. ChatRaised ''Request timed out.'')
                (\<lambda>w req. Accepted)"
  let ?df = "[\<lparr>col_Email = Cell '' ann@example.org '',
               col_Cancellation_Reason = Cell ''too expensive'',
               col_Customer_ID = None, col_Date_Cancelled = None\<rparr>,
              \<lparr>col_Email = Cell ''bob@example.org'', col_Cancellation_Reason = NaN,
               col_Customer_ID = Some (Cell ''B-2''), col_Date_Cancelled = Some NaN\<rparr>]"
  let ?results = "fst (process_rows ?env start get_offers_database 0 ?df [])"
  from batch_one_result_per_row_in_order [of ?env start get_offers_database ?df]
  have len: "length ?results = length ?df"
    and rows: "\<forall>i<length ?df. Email (?results ! i) = strip (cell_str (col_Email (?df ! i)))"
    by blast+
  have l2: "length ?results = 2" using len by simp
  from rows have "Email (?results ! 0) = strip (cell_str (col_Email (?df ! 0)))"
    and "Email (?results ! 1) = strip (cell_str (col_Email (?df ! 1)))"
    by simp_all
  then have e: "Email (?results ! 0) = ''ann@example.org''"
    "Email (?results ! 1) = ''bob@example.org''"
    by (simp_all add: strip_def is_space_def)
  have "map Email ?results = [Email (?results ! 0), Email (?results ! 1)]"
    using l2 by (intro nth_equalityI) (auto simp: less_Suc_eq numeral_2_eq_2)
  with e show ?thesis by simp
qed

lemma batch_default_customer_id_example:
  "''CUST-'' @ fmt_03d (6 + 1) = ''CUST-007''" and "''CUST-'' @ fmt_03d (1233 + 1) = ''CUST-1234''"
  by (simp_all add: fmt_03d_def str_nat.simps digit_char_def numeral_2_eq_2)

section \<open>Send All Emails\<close>

lemma matched_results_props:
  "distinct (matched_results results)"
  "i \<in> set (matched_results results) \<longleftrightarrow>
     i < length results \<and> Match_Found (results ! i) = ''Yes'' \<and> \<not> Email_Sent (results ! i)"
  by (auto simp: matched_results_def)

lemma Email_after_update:
  "Email ((results[i := (results ! i)\<lparr>Email_Sent := True\<rparr>]) ! j) = Email (results ! j)"
proof (cases "i < length results")
  case True
  then show ?thesis by (cases "j = i") simp_all
next
  case False
  then have "results[i := (results ! i)\<lparr>Email_Sent := True\<rparr>] = results"
    by (intro list_update_beyond) simp
  then show ?thesis by simp
qed

lemma send_all_loop_log:
  "\<exists>new. smtp_log (snd (send_all_loop env st results idxs sc fc)) = smtp_log st @ new \<and>
         (\<forall>req \<in> set new. \<exists>i \<in> set idxs. to_addrs req = [Email (results ! i)])"
proof (induction idxs arbitrary: st results sc fc)
  case Nil
  show ?case by simp
next
  case (Cons i rest)
  let ?subject = "''We'd Love to Keep You - Special Retention Offer''"
  obtain ok msg st1 where
    d: "send_email env st (Email (results ! i)) ?subject (Email_Content (results ! i)) =
          ((ok, msg), st1)"
    by (cases "send_email env st (Email (results ! i)) ?subject (Email_Content (results ! i))")
       auto
  define res1 where
    "res1 = (if ok then results[i := (results ! i)\<lparr>Email_Sent := True\<rparr>] else results)"
  define sc1 where "sc1 = (if ok then sc + 1 else sc)"
  define fc1 where "fc1 = (if ok then fc else fc + 1)"
  have step: "send_all_loop env st results (i # rest) sc fc =
        send_all_loop env st1 res1 rest sc1 fc1"
    using d by (simp add: res1_def sc1_def fc1_def Let_def)
  have em: "Email (res1 ! j) = Email (results ! j)" for j
    by (simp add: res1_def Email_after_update)
  from send_email_log [of env st "Email (results ! i)" ?subject "Email_Content (results ! i)"] d
  obtain first where
    f: "smtp_log st1 = smtp_log st @ first"
       "\<forall>req \<in> set first. to_addrs req = [Email (results ! i)]"
    by (elim disjE exE conjE) (force intro: that [of "[]"], force intro: that)
  from Cons.IH [of st1 res1 sc1 fc1] obtain new where
    n: "smtp_log (snd (send_all_loop env st1 res1 rest sc1 fc1)) = smtp_log st1 @ new"
       "\<forall>req \<in> set new. \<exists>j \<in> set rest. to_addrs req = [Email (res1 ! j)]"
    by blast
  have "\<forall>req \<in> set (first @ new). \<exists>j \<in> set (i # rest). to_addrs req = [Email (results ! j)]"
    using f(2) n(2) by (auto simp: em)
  with step f(1) n(1) show ?case
    by (intro exI [of _ "first @ new"]) simp
qed

lemma send_all_loop_char:
  assumes "distinct idxs" and "\<forall>i \<in> set idxs. i < length results"
  shows "length (fst (fst (send_all_loop env st results idxs sc fc))) = length results \<and>
         (\<forall>j. j \<notin> set idxs \<longrightarrow>
            fst (fst (send_all_loop env st results idxs sc fc)) ! j = results ! j) \<and>
         length (dispatch_results env st results idxs) = length idxs \<and>
         (\<forall>k<length idxs.
            fst (fst (send_all_loop env st results idxs sc fc)) ! (idxs ! k) =
              (if dispatch_results env st results idxs ! k
               then (results ! (idxs ! k))\<lparr>Email_Sent := True\<rparr>
               else results ! (idxs ! k))) \<and>
         fst (snd (fst (send_all_loop env st results idxs sc fc))) =
           sc + length (filter (\<lambda>b. b) (dispatch_results env st results idxs)) \<and>
         snd (snd (fst (send_all_loop env st results idxs sc fc))) =
           fc + length (filter Not (dispatch_results env st results idxs))"
  using assms
proof (induction idxs arbitrary: st results sc fc)
  case Nil
  show ?case by simp
next
  case (Cons i rest)
  let ?subject = "''We'd Love to Keep You - Special Retention Offer''"
  obtain ok msg st1 where
    d: "send_email env st (Email (results ! i)) ?subject (Email_Content (results ! i)) =
          ((ok, msg), st1)"
    by (cases "send_email env st (Email (results ! i)) ?subject (Email_Content (results ! i))")
       auto
  define res1 where
    "res1 = (if ok then results[i := (results ! i)\<lparr>Email_Sent := True\<rparr>] else results)"
  define sc1 where "sc1 = (if ok then sc + 1 else sc)"
  define fc1 where "fc1 = (if ok then fc else fc + 1)"
  define final where "final = fst (fst (send_all_loop env st1 res1 rest sc1 fc1))"
  define ds where "ds = dispatch_results env st1 res1 rest"
  have step: "send_all_loop env st results (i # rest) sc fc =
        send_all_loop env st1 res1 rest sc1 fc1"
    using d by (simp add: res1_def sc1_def fc1_def Let_def)
  have dstep: "dispatch_results env st results (i # rest) = ok # ds"
    using d by (simp add: res1_def ds_def Let_def)
  have i: "i < length results" "i \<notin> set rest" "distinct rest"
    using Cons.prems by auto
  have len1: "length res1 = length results" by (simp add: res1_def)
  have range1: "\<forall>j \<in> set rest. j < length res1" using Cons.prems len1 by auto
  have other: "res1 ! j = results ! j" if "j \<noteq> i" for j
    using that by (simp add: res1_def)
  have at_i: "res1 ! i = (if ok then (results ! i)\<lparr>Email_Sent := True\<rparr> else results ! i)"
    using i(1) by (simp add: res1_def)
  from Cons.IH [OF i(3) range1, of st1 sc1 fc1] have
    ih: "length final = length res1"
        "\<forall>j. j \<notin> set rest \<longrightarrow> final ! j = res1 ! j"
        "length ds = length rest"
        "\<forall>k<length rest. final ! (rest ! k) =
           (if ds ! k then (res1 ! (rest ! k))\<lparr>Email_Sent := True\<rparr> else res1 ! (rest ! k))"
        "fst (snd (fst (send_all_loop env st1 res1 rest sc1 fc1))) =
           sc1 + length (filter (\<lambda>b. b) ds)"
        "snd (snd (fst (send_all_loop env st1 res1 rest sc1 fc1))) =
           fc1 + length (filter Not ds)"
    unfolding final_def ds_def by blast+
  have a: "length final = length results" using ih(1) len1 by simp
  have b: "\<forall>j. j \<notin> set (i # rest) \<longrightarrow> final ! j = results ! j"
    using ih(2) other by auto
  have c: "length (ok # ds) = length (i # rest)" using ih(3) by simp
  have e: "\<forall>k<length (i # rest). final ! ((i # rest) ! k) =
           (if (ok # ds) ! k then (results ! ((i # rest) ! k))\<lparr>Email_Sent := True\<rparr>
            else results ! ((i # rest) ! k))"
  proof (intro allI impI)
    fix k assume k: "k < length (i # rest)"
    show "final ! ((i # rest) ! k) =
           (if (ok # ds) ! k then (results ! ((i # rest) ! k))\<lparr>Email_Sent := True\<rparr>
            else results ! ((i # rest) ! k))"
    proof (cases k)
      case 0
      then show ?thesis using ih(2) i(2) at_i by simp
    next
      case (Suc k')
      then have k': "k' < length rest" using k by simp
      then have "rest ! k' \<noteq> i" using i(2) by (metis nth_mem)
      then have "res1 ! (rest ! k') = results ! (rest ! k')" by (rule other)
      with ih(4) k' Suc show ?thesis by simp
    qed
  qed
  have f: "sc1 + length (filter (\<lambda>b. b) ds) = sc + length (filter (\<lambda>b. b) (ok # ds))"
    by (simp add: sc1_def)
  have g: "fc1 + length (filter Not ds) = fc + length (filter Not (ok # ds))"
    by (simp add: fc1_def)
  show ?case
    unfolding step dstep using a b c e f g ih(5,6) unfolding final_def by simp
qed

lemma send_all_matched_skipped:
  assumes "\<not> (matched_results results \<noteq> [] \<and> clicked)"
  shows "send_all_matched env st results clicked = ((results, None), st)"
  using assms by (auto simp: send_all_matched_def)

lemma send_all_matched_ran:
  assumes run: "matched_results results \<noteq> [] \<and> clicked"
    and r: "send_all_matched env st results clicked = ((results', counts), st')"
  shows "length results' = length results"
    and "\<forall>j. j \<notin> set (matched_results results) \<longrightarrow> results' ! j = results ! j"
    and "length (dispatch_results env st results (matched_results results)) =
           length (matched_results results)"
    and "\<forall>k<length (matched_results results).
           results' ! (matched_results results ! k) =
             (results ! (matched_results results ! k))
               \<lparr>Email_Sent := dispatch_results env st results (matched_results results) ! k\<rparr>"
    and "counts =
           Some (length (filter (\<lambda>b. b)
                   (dispatch_results env st results (matched_results results))),
                 length (filter Not
                   (dispatch_results env st results (matched_results results))))"
    and "st' = snd (send_all_loop env st results (matched_results results) 0 0)"
proof -
  let ?idxs = "matched_results results"
  let ?loop = "send_all_loop env st results ?idxs 0 0"
  let ?ds = "dispatch_results env st results ?idxs"
  have d: "distinct ?idxs" and rg: "\<forall>i \<in> set ?idxs. i < length results"
    by (simp_all add: matched_results_props)
  from run r have res: "results' = fst (fst ?loop)"
    and cnt: "counts = Some (fst (snd (fst ?loop)), snd (snd (fst ?loop)))"
    and st: "st' = snd ?loop"
    by (auto simp: send_all_matched_def split: prod.splits)
  note ch = send_all_loop_char [OF d rg, of env st 0 0]
  from ch res show "length results' = length results" by simp
  from ch res show "\<forall>j. j \<notin> set ?idxs \<longrightarrow> results' ! j = results ! j" by simp
  from ch show "length ?ds = length ?idxs" by simp
  show "\<forall>k<length ?idxs. results' ! (?idxs ! k) =
          (results ! (?idxs ! k))\<lparr>Email_Sent := ?ds ! k\<rparr>"
  proof (intro allI impI)
    fix k assume k: "k < length ?idxs"
    then have "?idxs ! k \<in> set ?idxs" by simp
    then have "\<not> Email_Sent (results ! (?idxs ! k))"
      by (simp add: matched_results_props)
    then have same: "(results ! (?idxs ! k))\<lparr>Email_Sent := False\<rparr> = results ! (?idxs ! k)"
      by simp
    from ch k res have "results' ! (?idxs ! k) =
        (if ?ds ! k then (results ! (?idxs ! k))\<lparr>Email_Sent := True\<rparr>
         else results ! (?idxs ! k))"
      by simp
    with same show "results' ! (?idxs ! k) = (results ! (?idxs ! k))\<lparr>Email_Sent := ?ds ! k\<rparr>"
      by (cases "?ds ! k") simp_all
  qed
  from ch cnt show "counts = Some (length (filter (\<lambda>b. b) ?ds), length (filter Not ?ds))"
    by simp
  from st show "st' = snd ?loop" .
qed

lemma send_all_matched_rows:
  assumes r: "send_all_matched env st results clicked = ((results', counts), st')"
  shows "length results' = length results"
    and "\<forall>j. j \<notin> set (matched_results results) \<longrightarrow> results' ! j = results ! j"
    and "\<forall>j. Match_Found (results' ! j) = Match_Found (results ! j)"
proof -
  have all: "length results' = length results \<and>
    (\<forall>j. j \<notin> set (matched_results results) \<longrightarrow> results' ! j = results ! j) \<and>
    (\<forall>j. Match_Found (results' ! j) = Match_Found (results ! j))"
  proof (cases "matched_results results \<noteq> [] \<and> clicked")
    case False
    with r have "results' = results" by (simp add: send_all_matched_skipped)
    then show ?thesis by simp
  next
    case True
    note ran = send_all_matched_ran [OF True r]
    have "Match_Found (results' ! j) = Match_Found (results ! j)" for j
    proof (cases "j \<in> set (matched_results results)")
      case False
      with ran(2) show ?thesis by simp
    next
      case True
      then obtain k where "k < length (matched_results results)"
        "matched_results results ! k = j"
        by (auto simp: in_set_conv_nth)
      with ran(4) show ?thesis by auto
    qed
    with ran(1,2) show ?thesis by simp
  qed
  from all show "length results' = length results" by simp
  from all show "\<forall>j. j \<notin> set (matched_results results) \<longrightarrow> results' ! j = results ! j"
    by simp
  from all show "\<forall>j. Match_Found (results' ! j) = Match_Found (results ! j)" by simp
qed

lemma send_all_matched_remaining:
  assumes r: "send_all_matched env st results clicked = ((results', counts), st')"
  shows "matched_results results' =
           filter (\<lambda>j. \<not> Email_Sent (results' ! j)) (matched_results results)"
proof -
  note rows = send_all_matched_rows [OF r]
  have "filter (\<lambda>j. Match_Found (results' ! j) = ''Yes'' \<and> \<not> Email_Sent (results' ! j))
          [0 ..< length results] =
        filter (\<lambda>j. (Match_Found (results ! j) = ''Yes'' \<and> \<not> Email_Sent (results ! j)) \<and>
                    \<not> Email_Sent (results' ! j)) [0 ..< length results]"
  proof (rule filter_cong [OF refl])
    fix j assume "j \<in> set [0 ..< length results]"
    then have j: "j < length results" by simp
    show "(Match_Found (results' ! j) = ''Yes'' \<and> \<not> Email_Sent (results' ! j)) =
          ((Match_Found (results ! j) = ''Yes'' \<and> \<not> Email_Sent (results ! j)) \<and>
           \<not> Email_Sent (results' ! j))"
    proof (cases "j \<in> set (matched_results results)")
      case True
      then show ?thesis using rows(3) by (simp add: matched_results_props)
    next
      case False
      with rows(2) have "results' ! j = results ! j" by simp
      then show ?thesis by auto
    qed
  qed
  then show ?thesis
    by (simp add: matched_results_def rows(1))
qed

lemma send_all_matched_log:
  assumes r: "send_all_matched env st results clicked = ((results', counts), st')"
  shows "\<exists>new. smtp_log st' = smtp_log st @ new \<and>
           (\<forall>req \<in> set new. \<exists>i \<in> set (matched_results results).
              to_addrs req = [Email (results ! i)])"
proof (cases "matched_results results \<noteq> [] \<and> clicked")
  case False
  with r have "st' = st" by (simp add: send_all_matched_skipped)
  then show ?thesis by (intro exI [of _ "[]"]) simp
next
  case True
  from send_all_matched_ran(6) [OF True r]
    send_all_loop_log [of env st results "matched_results results" 0 0]
  show ?thesis by simp
qed

lemma send_email_log_length:
  "length (smtp_log st) \<le> length (smtp_log (snd (send_email env st to_email subject body)))"
  "length (smtp_log (snd (send_email env st to_email subject body))) \<le> Suc (length (smtp_log st))"
  using send_email_log [of env st to_email subject body] by auto

lemma send_email_success_reached_relay:
  assumes "fst (fst (send_email env st to_email subject body))"
  shows "length (smtp_log (snd (send_email env st to_email subject body))) =
           Suc (length (smtp_log st))"
proof -
  from assms have "\<exists>r. fst (send_email_try env st to_email subject body) = Inr r \<and> fst r"
    by (cases "fst (send_email_try env st to_email subject body)")
       (auto simp: send_email_fst send_email_except_fails)
  then show ?thesis
    unfolding send_email_snd
    by (auto simp: send_email_try_def deliver_def Let_def
        split: if_splits sum.splits endpoint.splits prod.splits smtp_outcome.splits)
qed

lemma send_all_loop_log_length:
  "length (smtp_log st) + length (filter (\<lambda>b. b) (dispatch_results env st results idxs))
     \<le> length (smtp_log (snd (send_all_loop env st results idxs sc fc))) \<and>
   length (smtp_log (snd (send_all_loop env st results idxs sc fc)))
     \<le> length (smtp_log st) + length idxs"
proof (induction idxs arbitrary: st results sc fc)
  case Nil
  show ?case by simp
next
  case (Cons i rest)
  let ?subject = "''We'd Love to Keep You - Special Retention Offer''"
  obtain ok msg st1 where
    d: "send_email env st (Email (results ! i)) ?subject (Email_Content (results ! i)) =
          ((ok, msg), st1)"
    by (cases "send_email env st (Email (results ! i)) ?subject (Email_Content (results ! i))")
       auto
  define res1 where
    "res1 = (if ok then results[i := (results ! i)\<lparr>Email_Sent := True\<rparr>] else results)"
  define sc1 where "sc1 = (if ok then sc + 1 else sc)"
  define fc1 where "fc1 = (if ok then fc else fc + 1)"
  have step: "send_all_loop env st results (i # rest) sc fc =
        send_all_loop env st1 res1 rest sc1 fc1"
    using d by (simp add: res1_def sc1_def fc1_def Let_def)
  have dstep: "dispatch_results env st results (i # rest) =
        ok # dispatch_results env st1 res1 rest"
    using d by (simp add: res1_def Let_def)
  from send_email_log_length [where env = env and st = st
         and to_email = "Email (results ! i)" and subject = ?subject
         and body = "Email_Content (results ! i)"] d
  have l1: "length (smtp_log st) \<le> length (smtp_log st1)"
    "length (smtp_log st1) \<le> Suc (length (smtp_log st))"
    by simp_all
  from send_email_success_reached_relay [of env st "Email (results ! i)" ?subject
         "Email_Content (results ! i)"] d
  have l2: "ok \<Longrightarrow> length (smtp_log st1) = Suc (length (smtp_log st))"
    by simp
  from Cons.IH [of st1 res1 sc1 fc1] l1 l2 show ?case
    unfolding step dstep by (cases ok) auto
qed

lemma dispatch_results_head:
  "dispatch_results env st results (i # rest) ! 0 =
     fst (fst (send_email env st (Email (results ! i))
                 ''We'd Love to Keep You - Special Retention Offer''
                 (Email_Content (results ! i))))"
  by (simp add: Let_def split: prod.splits)

lemma send_all_matched_counts:
  assumes r: "send_all_matched env st results clicked = ((results', counts), st')"
  shows "(counts \<noteq> None) = (matched_results results \<noteq> [] \<and> clicked)"
proof (cases "matched_results results \<noteq> [] \<and> clicked")
  case False
  with r have "counts = None" by (simp add: send_all_matched_skipped)
  with False show ?thesis by simp
next
  case True
  from send_all_matched_ran(5) [OF True r] True show ?thesis by simp
qed

lemma send_all_matched_Email:
  assumes r: "send_all_matched env st results clicked = ((results', counts), st')"
  shows "Email (results' ! j) = Email (results ! j)"
proof (cases "matched_results results \<noteq> [] \<and> clicked")
  case False
  with r have "results' = results" by (simp add: send_all_matched_skipped)
  then show ?thesis by simp
next
  case True
  note ran = send_all_matched_ran [OF True r]
  show ?thesis
  proof (cases "j \<in> set (matched_results results)")
    case False
    with ran(2) show ?thesis by simp
  next
    case True
    then obtain k where "k < length (matched_results results)"
      "matched_results results ! k = j"
      by (auto simp: in_set_conv_nth)
    with ran(4) show ?thesis by auto
  qed
qed

lemma send_all_matched_log_length:
  assumes r: "send_all_matched env st results clicked = ((results', counts), st')"
  shows "length (smtp_log st') \<le> length (smtp_log st) + length (matched_results results)"
    and "counts \<noteq> None \<Longrightarrow>
           length (smtp_log st) +
             length (filter (\<lambda>b. b) (dispatch_results env st results (matched_results results)))
           \<le> length (smtp_log st')"
proof -
  show "length (smtp_log st') \<le> length (smtp_log st) + length (matched_results results)"
  proof (cases "matched_results results \<noteq> [] \<and> clicked")
    case False
    with r have "st' = st" by (simp add: send_all_matched_skipped)
    then show ?thesis by simp
  next
    case True
    from send_all_matched_ran(6) [OF True r]
      send_all_loop_log_length [where env = env and st = st and results = results
        and idxs = "matched_results results" and sc = 0 and fc = 0]
    show ?thesis by simp
  qed
  assume "counts \<noteq> None"
  then have run: "matched_results results \<noteq> [] \<and> clicked"
    using send_all_matched_counts [OF r] by simp
  from send_all_matched_ran(6) [OF run r]
    send_all_loop_log_length [where env = env and st = st and results = results
        and idxs = "matched_results results" and sc = 0 and fc = 0]
  show "length (smtp_log st) +
          length (filter (\<lambda>b. b) (dispatch_results env st results (matched_results results)))
        \<le> length (smtp_log st')"
    by simp
qed

lemma send_all_matched_all_succeeded:
  assumes r: "send_all_matched env st results clicked = ((results', counts), st')"
    and c: "counts = Some (success_count, 0)"
  shows "matched_results results' = []"
proof -
  let ?idxs = "matched_results results"
  let ?ds = "dispatch_results env st results ?idxs"
  from c have "counts \<noteq> None" by simp
  then have run: "?idxs \<noteq> [] \<and> clicked"
    using send_all_matched_counts [OF r] by simp
  note ran = send_all_matched_ran [OF run r]
  from ran(5) c have "length (filter Not ?ds) = 0" by simp
  then have all: "\<forall>b \<in> set ?ds. b" by (auto simp: filter_empty_conv)
  have "Email_Sent (results' ! j)" if "j \<in> set ?idxs" for j
  proof -
    from that obtain k where k: "k < length ?idxs" "?idxs ! k = j"
      by (auto simp: in_set_conv_nth)
    with ran(3) have "?ds ! k \<in> set ?ds" by simp
    with all have "?ds ! k" by blast
    with ran(4) k show ?thesis by auto
  qed
  then have "filter (\<lambda>j. \<not> Email_Sent (results' ! j)) ?idxs = []"
    by (simp add: filter_empty_conv)
  with send_all_matched_remaining [OF r] show ?thesis by simp
qed

lemma send_all_matched_second_log:
  assumes r: "send_all_matched env st results clicked = ((results', counts), st')"
  shows "\<exists>new. smtp_log (snd (send_all_matched env st' results' again)) = smtp_log st' @ new \<and>
           (\<forall>req \<in> set new. \<exists>i \<in> set (matched_results results).
              \<not> Email_Sent (results' ! i) \<and> to_addrs req = [Email (results ! i)])"
proof -
  obtain results'' counts'' st'' where
    r2: "send_all_matched env st' results' again = ((results'', counts''), st'')"
    by (cases "send_all_matched env st' results' again") auto
  from send_all_matched_log [OF r2] obtain new where
    n: "smtp_log st'' = smtp_log st' @ new"
       "\<forall>req \<in> set new. \<exists>i \<in> set (matched_results results').
          to_addrs req = [Email (results' ! i)]"
    by blast
  have "\<forall>req \<in> set new. \<exists>i \<in> set (matched_results results).
          \<not> Email_Sent (results' ! i) \<and> to_addrs req = [Email (results ! i)]"
  proof
    fix req assume "req \<in> set new"
    with n(2) obtain i where i: "i \<in> set (matched_results results')"
      "to_addrs req = [Email (results' ! i)]"
      by blast
    from i(1) have "i \<in> set (matched_results results) \<and> \<not> Email_Sent (results' ! i)"
      unfolding send_all_matched_remaining [OF r] by simp
    with i(2) send_all_matched_Email [OF r, of i]
    show "\<exists>i \<in> set (matched_results results).
          \<not> Email_Sent (results' ! i) \<and> to_addrs req = [Email (results ! i)]"
      by auto
  qed
  with n(1) r2 show ?thesis by (intro exI [of _ new]) simp
qed

text \<open>
  C1. One invocation of Send All Emails takes the session \<open>results\<close> to \<open>results'\<close>.
  The records it visits are those at the positions \<open>matched_results results\<close>: the
  positions, in order, whose \<^verbatim>\<open>Match Found\<close> is \<^verbatim>\<open>Yes\<close> and whose \<^verbatim>\<open>Email Sent\<close> is
  false. The loop runs (the counts exist) exactly when there is such a record and the
  button is pressed. The session keeps its length and every other record is unchanged.
  Every request that reaches the mail relay is addressed to such a record, there is at most
  one per such record, and at least one per success. When the loop runs, each visited
  record keeps its fields and its \<^verbatim>\<open>Email Sent\<close> becomes the success of its own dispatch
  (true on success, false on failure); the first dispatch is \<^verbatim>\<open>send_email\<close> to the first
  such record in the state before the invocation; the counts are the numbers of
  successes and of failures. Afterwards the matched and unsent records are those visited
  ones whose dispatch failed. A second invocation, from the session and the state the
  first one left, reaches the relay only for records that the first left unsent, never for
  one it marked sent; and when the first reported no failure, or no matched and unsent
  record is left, the second does nothing and sends zero emails.
\<close>

theorem send_all_matched_idempotent:
  assumes "send_all_matched env st results clicked = ((results', counts), st')"
  shows "matched_results results =
           filter (\<lambda>i. Match_Found (results ! i) = ''Yes'' \<and> \<not> Email_Sent (results ! i))
             [0 ..< length results] \<and>
         (counts \<noteq> None) = (matched_results results \<noteq> [] \<and> clicked) \<and>
         length results' = length results \<and>
         (\<forall>j. \<not> (j < length results \<and> Match_Found (results ! j) = ''Yes'' \<and>
                  \<not> Email_Sent (results ! j)) \<longrightarrow> results' ! j = results ! j) \<and>
         (\<exists>new. smtp_log st' = smtp_log st @ new \<and>
            length new \<le> length (matched_results results) \<and>
            (\<forall>req \<in> set new. \<exists>i<length results.
               Match_Found (results ! i) = ''Yes'' \<and> \<not> Email_Sent (results ! i) \<and>
               to_addrs req = [Email (results ! i)])) \<and>
         (counts \<noteq> None \<longrightarrow>
            length (dispatch_results env st results (matched_results results)) =
              length (matched_results results) \<and>
            dispatch_results env st results (matched_results results) ! 0 =
              fst (fst (send_email env st (Email (results ! (matched_results results ! 0)))
                          ''We'd Love to Keep You - Special Retention Offer''
                          (Email_Content (results ! (matched_results results ! 0))))) \<and>
            (\<forall>k<length (matched_results results).
               results' ! (matched_results results ! k) =
                 (results ! (matched_results results ! k))
                   \<lparr>Email_Sent :=
                      dispatch_results env st results (matched_results results) ! k\<rparr>) \<and>
            counts =
              Some (length (filter (\<lambda>b. b)
                      (dispatch_results env st results (matched_results results))),
                    length (filter Not
                      (dispatch_results env st results (matched_results results)))) \<and>
            length (smtp_log st) +
              length (filter (\<lambda>b. b)
                (dispatch_results env st results (matched_results results)))
              \<le> length (smtp_log st')) \<and>
         (counts = None \<longrightarrow> results' = results \<and> st' = st) \<and>
         matched_results results' =
           filter (\<lambda>j. \<not> Email_Sent (results' ! j)) (matched_results results) \<and>
         (\<exists>new. smtp_log (snd (send_all_matched env st' results' again)) = smtp_log st' @ new \<and>
            (\<forall>req \<in> set new. \<exists>i \<in> set (matched_results results).
               \<not> Email_Sent (results' ! i) \<and> to_addrs req = [Email (results ! i)])) \<and>
         ((\<exists>success_count. counts = Some (success_count, 0)) \<longrightarrow>
            send_all_matched env st' results' again = ((results', None), st')) \<and>
         (matched_results results' = [] \<longrightarrow>
            send_all_matched env st' results' again = ((results', None), st') \<and>
            smtp_log (snd (send_all_matched env st' results' again)) = smtp_log st')"
proof -
  note r = assms
  let ?idxs = "matched_results results"
  let ?ds = "dispatch_results env st results ?idxs"
  have c1: "?idxs = filter (\<lambda>i. Match_Found (results ! i) = ''Yes'' \<and> \<not> Email_Sent (results ! i))
             [0 ..< length results]"
    by (simp add: matched_results_def)
  note c2 = send_all_matched_counts [OF r]
  note c3 = send_all_matched_rows(1) [OF r]
  have c4: "\<forall>j. \<not> (j < length results \<and> Match_Found (results ! j) = ''Yes'' \<and>
                  \<not> Email_Sent (results ! j)) \<longrightarrow> results' ! j = results ! j"
    using send_all_matched_rows(2) [OF r] by (simp add: matched_results_props)
  have c5: "\<exists>new. smtp_log st' = smtp_log st @ new \<and>
            length new \<le> length ?idxs \<and>
            (\<forall>req \<in> set new. \<exists>i<length results.
               Match_Found (results ! i) = ''Yes'' \<and> \<not> Email_Sent (results ! i) \<and>
               to_addrs req = [Email (results ! i)])"
  proof -
    from send_all_matched_log [OF r] obtain new where
      n: "smtp_log st' = smtp_log st @ new"
         "\<forall>req \<in> set new. \<exists>i \<in> set ?idxs. to_addrs req = [Email (results ! i)]"
      by blast
    from n(1) send_all_matched_log_length(1) [OF r] have "length new \<le> length ?idxs"
      by simp
    moreover have "\<forall>req \<in> set new. \<exists>i<length results.
               Match_Found (results ! i) = ''Yes'' \<and> \<not> Email_Sent (results ! i) \<and>
               to_addrs req = [Email (results ! i)]"
    proof
      fix req assume "req \<in> set new"
      with n(2) obtain i where i: "i \<in> set ?idxs" "to_addrs req = [Email (results ! i)]"
        by blast
      from i(1) have "i < length results \<and> Match_Found (results ! i) = ''Yes'' \<and>
          \<not> Email_Sent (results ! i)"
        by (simp add: matched_results_props)
      with i(2) show "\<exists>i<length results.
               Match_Found (results ! i) = ''Yes'' \<and> \<not> Email_Sent (results ! i) \<and>
               to_addrs req = [Email (results ! i)]"
        by blast
    qed
    ultimately show ?thesis using n(1) by blast
  qed
  have c6: "counts \<noteq> None \<longrightarrow>
            length ?ds = length ?idxs \<and>
            ?ds ! 0 =
              fst (fst (send_email env st (Email (results ! (?idxs ! 0)))
                          ''We'd Love to Keep You - Special Retention Offer''
                          (Email_Content (results ! (?idxs ! 0))))) \<and>
            (\<forall>k<length ?idxs.
               results' ! (?idxs ! k) = (results ! (?idxs ! k))\<lparr>Email_Sent := ?ds ! k\<rparr>) \<and>
            counts = Some (length (filter (\<lambda>b. b) ?ds), length (filter Not ?ds)) \<and>
            length (smtp_log st) + length (filter (\<lambda>b. b) ?ds) \<le> length (smtp_log st')"
  proof
    assume nn: "counts \<noteq> None"
    with c2 have run: "?idxs \<noteq> [] \<and> clicked" by simp
    note ran = send_all_matched_ran [OF run r]
    from run obtain i rest where ir: "?idxs = i # rest" by (cases ?idxs) auto
    have hd: "?ds ! 0 =
              fst (fst (send_email env st (Email (results ! (?idxs ! 0)))
                          ''We'd Love to Keep You - Special Retention Offer''
                          (Email_Content (results ! (?idxs ! 0)))))"
      unfolding ir by (simp only: dispatch_results_head nth_Cons_0)
    from ran(3) hd ran(4) ran(5) send_all_matched_log_length(2) [OF r nn]
    show "length ?ds = length ?idxs \<and>
            ?ds ! 0 =
              fst (fst (send_email env st (Email (results ! (?idxs ! 0)))
                          ''We'd Love to Keep You - Special Retention Offer''
                          (Email_Content (results ! (?idxs ! 0))))) \<and>
            (\<forall>k<length ?idxs.
               results' ! (?idxs ! k) = (results ! (?idxs ! k))\<lparr>Email_Sent := ?ds ! k\<rparr>) \<and>
            counts = Some (length (filter (\<lambda>b. b) ?ds), length (filter Not ?ds)) \<and>
            length (smtp_log st) + length (filter (\<lambda>b. b) ?ds) \<le> length (smtp_log st')"
      by blast
  qed
  have c7: "counts = None \<longrightarrow> results' = results \<and> st' = st"
  proof
    assume "counts = None"
    with c2 have "\<not> (?idxs \<noteq> [] \<and> clicked)" by simp
    with r show "results' = results \<and> st' = st" by (simp add: send_all_matched_skipped)
  qed
  note c8 = send_all_matched_remaining [OF r]
  note c9 = send_all_matched_second_log [OF r, of again]
  have c11: "matched_results results' = [] \<longrightarrow>
            send_all_matched env st' results' again = ((results', None), st') \<and>
            smtp_log (snd (send_all_matched env st' results' again)) = smtp_log st'"
    by (simp add: send_all_matched_skipped)
  have c10: "(\<exists>success_count. counts = Some (success_count, 0)) \<longrightarrow>
            send_all_matched env st' results' again = ((results', None), st')"
    using send_all_matched_all_succeeded [OF r] c11 by blast
  from c1 c2 c3 c4 c5 c6 c7 c8 c9 c10 c11 show ?thesis by blast
qed

lemma sample_session_first_invocation:
  "send_all_matched (scripted_env gmail_vars (\<lambda>w req. NoContent) (\<lambda>w req. Accepted)) start
      sample_session True =
     ((sample_session[0 := (sample_session ! 0)\<lparr>Email_Sent := True\<rparr>], Some (1, 0)),
      \<lparr>world = 1,
       smtp_log = [\<lparr>host = ''smtp.gmail.com'', port = 587, timeout = 10,
                    login_user = ''team@gmail.com'', login_password = ''app-password'',
                    from_addr = ''team@gmail.com'', to_addrs = [''ann@example.org''],
                    msg_From = ''team@gmail.com'', msg_To = ''ann@example.org'',
                    msg_Subject = ''We'd Love to Keep You - Special Retention Offer'',
                    msg_body = ''Hey Ann, ...''\<rparr>],
       chat_log = []\<rparr>)"
  by (simp add: send_all_matched_def matched_results_def sample_session_def upt_rec
      send_email_def send_email_try_def deliver_def resolve_endpoint_def with_server_def
      port_or_587_def scripted_env_def gmail_vars_def py_truthy_def start_def lower_def
      lower_char_def Let_def)

theorem send_all_matched_idempotent_witness:
  "matched_results sample_session = [0] \<and>
   send_all_matched (scripted_env gmail_vars (\<lambda>w req. NoContent) (\<lambda>w req. Accepted)) start
       sample_session True =
     ((sample_session[0 := (sample_session ! 0)\<lparr>Email_Sent := True\<rparr>], Some (1, 0)),
      snd (send_all_matched (scripted_env gmail_vars (\<lambda>w req. NoContent) (\<lambda>w req. Accepted))
             start sample_session True)) \<and>
   send_all_matched
       (scripted_env gmail_vars (\<lambda>w req. NoContent) (\<lambda>w req. Accepted))
       (snd (send_all_matched (scripted_env gmail_vars (\<lambda>w req. NoContent) (\<lambda>w req. Accepted))
               start sample_session True))
       (sample_session[0 := (sample_session ! 0)\<lparr>Email_Sent := True\<rparr>]) True =
     ((sample_session[0 := (sample_session ! 0)\<lparr>Email_Sent := True\<rparr>], None),
      snd (send_all_matched (scripted_env gmail_vars (\<lambda>w req. NoContent) (\<lambda>w req. Accepted))
             start sample_session True))"
proof -
  let ?env = "scripted_env gmail_vars (\<lambda>w req. NoContent) (\<lambda>w req. Accepted)"
  let ?after = "sample_session[0 := (sample_session ! 0)\<lparr>Email_Sent := True\<rparr>]"
  have h: "send_all_matched ?env start sample_session True =
      ((?after, Some (1, 0)), snd (send_all_matched ?env start sample_session True))"
    by (simp add: sample_session_first_invocation)
  have m: "matched_results sample_session = [0]"
    by (simp add: matched_results_def sample_session_def upt_rec)
  have "\<exists>success_count. Some (1::nat, 0::nat) = Some (success_count, 0)" by blast
  with send_all_matched_idempotent [OF h, of True]
  have "send_all_matched ?env (snd (send_all_matched ?env start sample_session True)) ?after True =
      ((?after, None), snd (send_all_matched ?env start sample_session True))"
    by blast
  with h m show ?thesis by blast
qed

lemma failed_dispatch_stays_unsent_and_is_retried:
  "fst (send_all_matched
          (scripted_env gmail_vars (\<lambda>w req. NoContent)
             (\<lambda>w req. if w = 0 then SmtpRaised (SMTPException ''Connection unexpectedly closed'')
                       else Accepted))
          start sample_session True) = (sample_session, Some (0, 1))"
    and
  "fst (send_all_matched
          (scripted_env gmail_vars (\<lambda>w req. NoContent)
             (\<lambda>w req. if w = 0 then SmtpRaised (SMTPException ''Connection unexpectedly closed'')
                       else Accepted))
          (snd (send_all_matched
             (scripted_env gmail_vars (\<lambda>w req. NoContent)
                (\<lambda>w req. if w = 0 then SmtpRaised (SMTPException ''Connection unexpectedly closed'')
                          else Accepted))
             start sample_session True))
          sample_session True) =
     (sample_session[0 := (sample_session ! 0)\<lparr>Email_Sent := True\<rparr>], Some (1, 0))"
  by (simp_all add: send_all_matched_def matched_results_def sample_session_def upt_rec
      send_email_def send_email_try_def deliver_def resolve_endpoint_def with_server_def
      port_or_587_def scripted_env_def gmail_vars_def py_truthy_def start_def lower_def
      lower_char_def Let_def)

end
